theory Spec2Isabelle
  imports Main "HOL-Library.Word"
begin

unbundle bit_operations_syntax

section \<open>Data model\<close>

type_synonym byte = "8 word"

text \<open>Result codes. The C functions return \<open>BPAK_OK\<close> (zero) or the negation of one of the
  error constants; the model keeps the names and drops the sign.\<close>

datatype bpak_result =
    BPAK_OK
  | BPAK_FAILED
  | BPAK_NOT_FOUND
  | BPAK_SIZE_ERROR
  | BPAK_NO_SPACE
  | BPAK_EXISTS
  | BPAK_NOT_SUPPORTED
  | BPAK_SEEK_ERROR
  | BPAK_READ_ERROR
  | BPAK_WRITE_ERROR
  | BPAK_FILE_NOT_FOUND

datatype bpak_header_pos = BPAK_HEADER_POS_FIRST | BPAK_HEADER_POS_LAST

datatype bpak_io_seek_dir = BPAK_IO_SEEK_SET | BPAK_IO_SEEK_FWD | BPAK_IO_SEEK_END

text \<open>\<open>struct bpak_part_header\<close>. The fields \<open>id\<close> and \<open>size\<close> are renamed
  \<open>part_id\<close> and \<open>part_size\<close>. The declaration (bpak/bpak.h) is not among the sources:
  \<open>size\<close>, \<open>offset\<close> and \<open>transport_size\<close> are 64-bit (the code copies them into
  \<open>uint64_t\<close> and \<open>size_t\<close> variables), \<open>flags\<close> is 8-bit (\<open>uint8_t flags\<close> is assigned to it);
  the width of \<open>pad_bytes\<close> is a parameter of the environment below and the field holds the
  unsigned value.\<close>

record bpak_part_header =
  part_id :: "32 word"
  part_size :: "64 word"
  transport_size :: "64 word"
  offset :: "64 word"
  pad_bytes :: nat
  flags :: "8 word"

record bpak_meta_header =
  meta_id :: "32 word"
  part_id_ref :: "32 word"
  data_offset :: "16 word"
  meta_size :: "16 word"

text \<open>\<open>struct bpak_header\<close>. The functions of pkg.c and pkg_create.c touch \<open>hash_kind\<close>,
  \<open>payload_hash\<close>, \<open>signature\<close>, \<open>signature_sz\<close> and \<open>parts\<close>; the other fields are those of
  the data model and are only carried along.\<close>

record bpak_header =
  magic :: "32 word"
  version :: "32 word"
  hash_kind :: "32 word"
  signature_kind :: "32 word"
  payload_hash :: "byte list"
  signature :: "byte list"
  signature_sz :: "16 word"
  keystore_id :: "32 word"
  key_id :: "32 word"
  alignment :: "32 word"
  meta :: "bpak_meta_header list"
  meta_data :: "byte list"
  parts :: "bpak_part_header list"

text \<open>\<open>struct bpak_package\<close>: the stream, the in-memory header and where the header lives.\<close>

record 'io bpak_package =
  io :: 'io
  header :: bpak_header
  header_location :: bpak_header_pos

datatype hash_alg = SHA256 | SHA384 | SHA512

text \<open>What the functions of pkg.c and pkg_create.c call and the sources do not contain: the
  stream layer (bpak/file.h), \<open>bpak_valid_header\<close> and \<open>bpak_id\<close> (bpak/bpak.h), the layout of
  \<open>struct bpak_header\<close> in memory, the mbedtls digests, and the indeterminate contents of an
  uninitialised stack buffer. They are parameters, collected in one record.

  \<^item> \<open>bpak_io_read io n\<close> gives the bytes the stream deposited in the caller's buffer; the
    value returned by the C function is their number, so that a failed read is one that
    deposits fewer than \<open>n\<close> bytes.
  \<^item> \<open>bpak_io_write io bs\<close> gives the number of bytes written.
  \<^item> \<open>bpak_part_size\<close> is the helper of that name (bpak/bpak.h): the number of bytes a
    part takes on the stream.
  \<^item> \<open>pad_bytes_width\<close> is the width in bits of the field \<open>pad_bytes\<close>.
  \<^item> \<open>BPAK_PART_ALIGN\<close> is the constant of that name.\<close>

record 'io bpak_env =
  malloc_ok :: bool
  bpak_io_init_file :: "string \<Rightarrow> string \<Rightarrow> bpak_result \<times> 'io"
  bpak_io_seek :: "'io \<Rightarrow> nat \<Rightarrow> bpak_io_seek_dir \<Rightarrow> bpak_result \<times> 'io"
  bpak_io_read :: "'io \<Rightarrow> nat \<Rightarrow> byte list \<times> 'io"
  bpak_io_write :: "'io \<Rightarrow> byte list \<Rightarrow> nat \<times> 'io"
  bpak_valid_header :: "bpak_header \<Rightarrow> bpak_result"
  header_image :: "bpak_header \<Rightarrow> byte list"
  header_of_image :: "byte list \<Rightarrow> bpak_header"
  mbedtls_digest :: "hash_alg \<Rightarrow> byte list \<Rightarrow> byte list"
  bpak_id :: "string \<Rightarrow> 32 word"
  bpak_part_size :: "bpak_part_header \<Rightarrow> 64 word"
  uninitialised :: "byte list"
  pad_bytes_width :: nat
  BPAK_PART_ALIGN :: nat

subsection \<open>Constants and helpers of bpak.h\<close>

text \<open>Modelled from the spec: \<open>sizeof(struct bpak_header)\<close>, "Header (fixed size, 4096 bytes)";
  pkg.c itself seeks by the literal 4096.\<close>

definition sizeof_header :: nat where
  "sizeof_header = 4096"

text \<open>Modelled from the spec: the values of the enum \<open>hash_kind\<close>,
  "enum {SHA256=1, SHA384=2, SHA512=3}".\<close>

definition BPAK_HASH_SHA256 :: "32 word" where "BPAK_HASH_SHA256 = 1"
definition BPAK_HASH_SHA384 :: "32 word" where "BPAK_HASH_SHA384 = 2"
definition BPAK_HASH_SHA512 :: "32 word" where "BPAK_HASH_SHA512 = 3"

text \<open>Modelled from the spec: the two flag bits of a part, "TRANSPORT" and
  "EXCLUDE_FROM_HASH"; the spec gives no bit positions, the model takes bits 0 and 1.\<close>

definition BPAK_FLAG_EXCLUDE_FROM_HASH :: "8 word" where "BPAK_FLAG_EXCLUDE_FROM_HASH = 1"
definition BPAK_FLAG_TRANSPORT :: "8 word" where "BPAK_FLAG_TRANSPORT = 2"

text \<open>Modelled from the spec: what \<open>bpak_part_size\<close> returns in the words of the
  specification, "part_size(h, part): if flag TRANSPORT, transport_size, else size (the
  on-disk byte count)".\<close>

definition part_size_spec :: "bpak_part_header \<Rightarrow> 64 word" where
  "part_size_spec p =
     (if flags p AND BPAK_FLAG_TRANSPORT \<noteq> 0 then transport_size p else part_size p)"

text \<open>Modelled from the spec: \<open>bpak_part_offset\<close>, "part_offset(h, part): part.offset".\<close>

definition bpak_part_offset :: "bpak_header \<Rightarrow> bpak_part_header \<Rightarrow> 64 word" where
  "bpak_part_offset h p = offset p"

text \<open>\<open>memcpy(dst, src, n)\<close> on arrays as lists: the first \<open>n\<close> bytes of \<open>dst\<close> are replaced.\<close>

definition memcpy :: "byte list \<Rightarrow> byte list \<Rightarrow> nat \<Rightarrow> byte list" where
  "memcpy dst src n = take n src @ drop n dst"

text \<open>The bytes of the in-memory header: exactly \<open>sizeof_header\<close> of them, whatever
  the supplied layout function returns.\<close>

definition header_bytes :: "'io bpak_env \<Rightarrow> bpak_header \<Rightarrow> byte list" where
  "header_bytes env h = take sizeof_header (header_image env h @ replicate sizeof_header 0)"

section \<open>Digests (pkg.c)\<close>

definition digest_len :: "hash_alg \<Rightarrow> nat" where
  "digest_len a = (case a of SHA256 \<Rightarrow> 32 | SHA384 \<Rightarrow> 48 | SHA512 \<Rightarrow> 64)"

text \<open>\<open>mbedtls_sha256_finish_ret\<close> and \<open>mbedtls_sha512_finish_ret\<close> on everything fed since
  \<open>starts\<close>: a digest of 32, 48 or 64 bytes.\<close>

definition md_finish :: "'io bpak_env \<Rightarrow> hash_alg \<Rightarrow> byte list \<Rightarrow> byte list" where
  "md_finish env a fed =
     take (digest_len a) (mbedtls_digest env a fed @ replicate (digest_len a) 0)"

text \<open>The \<open>switch (pkg->header.hash_kind)\<close> that opens both hash functions: the error
  returned, or the digest chosen and the new value of \<open>*size\<close>.\<close>

definition hash_switch :: "32 word \<Rightarrow> nat \<Rightarrow> bpak_result + (hash_alg \<times> nat)" where
  "hash_switch kind sz =
     (if kind = BPAK_HASH_SHA256 then (if sz < 32 then Inl BPAK_FAILED else Inr (SHA256, 32))
      else if kind = BPAK_HASH_SHA384 then (if sz < 48 then Inl BPAK_FAILED else Inr (SHA384, 48))
      else if kind = BPAK_HASH_SHA512 then (if sz < 64 then Inl BPAK_FAILED else Inr (SHA512, 64))
      else Inl BPAK_NOT_SUPPORTED)"

text \<open>One pass of the \<open>do ... while (bytes_to_read)\<close> loop of \<open>bpak_pkg_compute_payload_hash\<close>
  and the loop itself. The state is the stream, \<open>hash_buffer\<close> and the bytes fed to the
  digest so far. The value returned by \<open>bpak_io_read\<close> is not looked at: the digest is fed
  the first \<open>chunk\<close> bytes of \<open>hash_buffer\<close>, whatever the read deposited there.\<close>

definition hash_chunk ::
  "'io bpak_env \<Rightarrow> 'io \<times> byte list \<times> byte list \<Rightarrow> nat \<Rightarrow> 'io \<times> byte list \<times> byte list" where
  "hash_chunk env st chunk =
     (case st of (s, hash_buffer, fed) \<Rightarrow>
        (case bpak_io_read env s chunk of (bs, s') \<Rightarrow>
           let hash_buffer' = memcpy hash_buffer bs (min chunk (length bs))
           in (s', hash_buffer', fed @ take chunk hash_buffer')))"

function hash_part ::
  "'io bpak_env \<Rightarrow> 'io \<times> byte list \<times> byte list \<Rightarrow> nat \<Rightarrow> 'io \<times> byte list \<times> byte list" where
  "hash_part env st bytes_to_read =
     (let chunk = (if bytes_to_read > 512 then 512 else bytes_to_read);
          st' = hash_chunk env st chunk
      in if bytes_to_read - chunk \<noteq> 0 then hash_part env st' (bytes_to_read - chunk) else st')"
  by pat_completeness auto
termination
  by (relation "measure (\<lambda>(env, st, n). n)") (auto split: if_splits)

declare hash_part.simps [simp del]

text \<open>The body of \<open>bpak_foreach_part\<close> in \<open>bpak_pkg_compute_payload_hash\<close>, over the slots
  of the part table in order. The macro visits every slot: the body itself skips the
  empty ones.\<close>

fun hash_parts ::
  "'io bpak_env \<Rightarrow> 'io \<times> byte list \<times> byte list \<Rightarrow> bpak_part_header list
     \<Rightarrow> 'io \<times> byte list \<times> byte list" where
  "hash_parts env st [] = st"
| "hash_parts env st (p # ps) =
     (if part_id p = 0 then hash_parts env st ps
      else if flags p AND BPAK_FLAG_EXCLUDE_FROM_HASH \<noteq> 0 then
        (case st of (s, hash_buffer, fed) \<Rightarrow>
           hash_parts env
             (snd (bpak_io_seek env s (unat (bpak_part_size env p)) BPAK_IO_SEEK_FWD), hash_buffer, fed)
             ps)
      else hash_parts env (hash_part env st (unat (bpak_part_size env p))) ps)"

text \<open>The bytes \<open>bpak_pkg_compute_payload_hash\<close> feeds to the digest, with the stream it
  leaves behind: the seek to the start of the payload and the loop over the parts.\<close>

definition payload_feed :: "'io bpak_env \<Rightarrow> 'io bpak_package \<Rightarrow> 'io \<times> byte list \<times> byte list" where
  "payload_feed env pkg =
     (let s = snd (if header_location pkg = BPAK_HEADER_POS_FIRST
                   then bpak_io_seek env (io pkg) sizeof_header BPAK_IO_SEEK_SET
                   else bpak_io_seek env (io pkg) 0 BPAK_IO_SEEK_SET)
      in hash_parts env (s, take 512 (uninitialised env @ replicate 512 0), [])
           (parts (header pkg)))"

text \<open>\<open>bpak_pkg_compute_payload_hash(pkg, output, size)\<close>: the result code, the package
  (its stream has moved), the output buffer and \<open>*size\<close>.\<close>

definition bpak_pkg_compute_payload_hash ::
  "'io bpak_env \<Rightarrow> 'io bpak_package \<Rightarrow> byte list \<Rightarrow> nat
     \<Rightarrow> bpak_result \<times> 'io bpak_package \<times> byte list \<times> nat" where
  "bpak_pkg_compute_payload_hash env pkg output sz =
     (case hash_switch (hash_kind (header pkg)) sz of
        Inl rc \<Rightarrow> (rc, pkg, output, sz)
      | Inr (a, sz') \<Rightarrow>
          (case payload_feed env pkg of (s, hash_buffer, fed) \<Rightarrow>
             (BPAK_OK, pkg\<lparr>io := s\<rparr>,
              memcpy output (md_finish env a fed) (digest_len a), sz')))"

text \<open>\<open>bpak_pkg_update_payload_hash\<close>: the output buffer is \<open>pkg->header.payload_hash\<close>.\<close>

definition bpak_pkg_update_payload_hash ::
  "'io bpak_env \<Rightarrow> 'io bpak_package \<Rightarrow> bpak_result \<times> 'io bpak_package" where
  "bpak_pkg_update_payload_hash env pkg =
     (case bpak_pkg_compute_payload_hash env pkg (payload_hash (header pkg)) 64 of
        (rc, pkg', output, sz) \<Rightarrow> (rc, pkg'\<lparr>header := (header pkg')\<lparr>payload_hash := output\<rparr>\<rparr>))"

text \<open>\<open>bpak_pkg_compute_header_hash(pkg, output, size, update_payload_hash)\<close>. Both error
  returns of the \<open>switch\<close> leave the function after the signature has been zeroed and before
  it is copied back.\<close>

definition bpak_pkg_compute_header_hash ::
  "'io bpak_env \<Rightarrow> 'io bpak_package \<Rightarrow> byte list \<Rightarrow> nat \<Rightarrow> bool
     \<Rightarrow> bpak_result \<times> 'io bpak_package \<times> byte list \<times> nat" where
  "bpak_pkg_compute_header_hash env pkg output sz update_payload_hash =
     (case (if update_payload_hash then bpak_pkg_update_payload_hash env pkg else (BPAK_OK, pkg)) of
        (rc, pkg1) \<Rightarrow>
          if rc \<noteq> BPAK_OK then (rc, pkg1, output, sz)
          else
            let signature_saved = memcpy (replicate 512 0) (signature (header pkg1)) 512;
                signature_sz_saved = signature_sz (header pkg1);
                pkg2 = pkg1\<lparr>header := (header pkg1)\<lparr>signature := replicate 512 0,
                                                     signature_sz := 0\<rparr>\<rparr>
            in (case hash_switch (hash_kind (header pkg2)) sz of
                  Inl rc' \<Rightarrow> (rc', pkg2, output, sz)
                | Inr (a, sz') \<Rightarrow>
                    (BPAK_OK,
                     pkg2\<lparr>header := (header pkg2)\<lparr>signature := memcpy (signature (header pkg2)) signature_saved 512,
                                                     signature_sz := signature_sz_saved\<rparr>\<rparr>,
                     memcpy output (md_finish env a (header_bytes env (header pkg2))) (digest_len a),
                     sz')))"

section \<open>Header on the stream (pkg.c)\<close>

text \<open>\<open>bpak_pkg_write_header\<close>.\<close>

definition bpak_pkg_write_header ::
  "'io bpak_env \<Rightarrow> 'io bpak_package \<Rightarrow> bpak_result \<times> 'io bpak_package" where
  "bpak_pkg_write_header env pkg =
     (case (if header_location pkg = BPAK_HEADER_POS_FIRST
            then bpak_io_seek env (io pkg) 0 BPAK_IO_SEEK_SET
            else bpak_io_seek env (io pkg) 4096 BPAK_IO_SEEK_END) of
        (rc, s) \<Rightarrow>
          if rc \<noteq> BPAK_OK then (rc, pkg\<lparr>io := s\<rparr>)
          else (case bpak_io_write env s (header_bytes env (header pkg)) of
                  (n, s') \<Rightarrow>
                    if n \<noteq> sizeof_header then (BPAK_FAILED, pkg\<lparr>io := s'\<rparr>)
                    else (BPAK_OK, pkg\<lparr>io := s'\<rparr>)))"

text \<open>\<open>bpak_pkg_sign(pkg, signature, size)\<close>, with \<open>size\<close> the length of the list. The
  \<open>memcpy\<close> has no bound check: with more than 512 bytes it writes past the array, which
  C leaves undefined; that is the result \<open>None\<close>.\<close>

definition bpak_pkg_sign ::
  "'io bpak_env \<Rightarrow> 'io bpak_package \<Rightarrow> byte list \<Rightarrow> (bpak_result \<times> 'io bpak_package) option" where
  "bpak_pkg_sign env pkg sig =
     (if length sig > 512 then None
      else
        let h1 = (header pkg)\<lparr>signature := replicate 512 0\<rparr>;
            h2 = h1\<lparr>signature := memcpy (signature h1) sig (length sig)\<rparr>;
            h3 = h2\<lparr>signature_sz := of_nat (length sig)\<rparr>
        in Some (bpak_pkg_write_header env (pkg\<lparr>header := h3\<rparr>)))"

text \<open>Lines 48 to 80 of \<open>bpak_pkg_open\<close>: the two candidate reads. \<open>pkg->header\<close> starts as
  zeros (the \<open>memset\<close>) and every read overwrites as many of its bytes as the stream
  delivers. The local \<open>rc\<close> set on the way is overwritten at \<open>skip_header\<close>, so the
  result is the stream, the header image and the location only.\<close>

definition open_read_header ::
  "'io bpak_env \<Rightarrow> 'io \<Rightarrow> 'io \<times> byte list \<times> bpak_header_pos" where
  "open_read_header env s =
     (case bpak_io_read env s sizeof_header of
        (bs, s1) \<Rightarrow>
          let img1 = memcpy (replicate sizeof_header 0) bs (min sizeof_header (length bs))
          in if length bs \<noteq> sizeof_header then (s1, img1, BPAK_HEADER_POS_FIRST)
             else if bpak_valid_header env (header_of_image env img1) = BPAK_OK
             then (s1, img1, BPAK_HEADER_POS_FIRST)
             else (case bpak_io_seek env s1 4096 BPAK_IO_SEEK_END of
                     (rc, s2) \<Rightarrow>
                       if rc \<noteq> BPAK_OK then (s2, img1, BPAK_HEADER_POS_FIRST)
                       else (case bpak_io_read env s2 sizeof_header of
                               (bs', s3) \<Rightarrow>
                                 let img2 = memcpy img1 bs' (min sizeof_header (length bs'))
                                 in if length bs' \<noteq> sizeof_header
                                    then (s3, img2, BPAK_HEADER_POS_FIRST)
                                    else if bpak_valid_header env (header_of_image env img2) \<noteq> BPAK_OK
                                    then (s3, img2, BPAK_HEADER_POS_FIRST)
                                    else (s3, img2, BPAK_HEADER_POS_LAST))))"

text \<open>What \<open>*pkg_\<close> is after \<open>bpak_pkg_open\<close>: not written at all, the null pointer, or a
  package.\<close>

datatype 'io pkg_pointer = Not_Written | Null_Pointer | Package "'io bpak_package"

text \<open>\<open>bpak_pkg_open(pkg_, filename, mode)\<close>: the result code and \<open>*pkg_\<close>. \<open>mode\<close> is \<open>None\<close>
  for a null pointer.\<close>

definition bpak_pkg_open ::
  "'io bpak_env \<Rightarrow> string \<Rightarrow> string option \<Rightarrow> bpak_result \<times> 'io pkg_pointer" where
  "bpak_pkg_open env filename mode =
     (case mode of
        None \<Rightarrow> (BPAK_FAILED, Not_Written)
      | Some m \<Rightarrow>
          if \<not> malloc_ok env then (BPAK_FAILED, Null_Pointer)
          else (case bpak_io_init_file env filename m of
                  (rc, s0) \<Rightarrow>
                    if rc \<noteq> BPAK_OK then (rc, Null_Pointer)
                    else (case bpak_io_seek env s0 0 BPAK_IO_SEEK_SET of
                            (rc1, s1) \<Rightarrow>
                              if rc1 \<noteq> BPAK_OK then (rc1, Null_Pointer)
                              else (case open_read_header env s1 of
                                      (s2, img, loc) \<Rightarrow>
                                        (case bpak_io_seek env s2 0 BPAK_IO_SEEK_SET of
                                           (rc2, s3) \<Rightarrow>
                                             if rc2 \<noteq> BPAK_OK then (rc2, Null_Pointer)
                                             else (BPAK_OK,
                                                   Package \<lparr>io = s3, header = header_of_image env img,
                                                            header_location = loc\<rparr>))))))"

text \<open>\<open>bpak_pkg_installed_size\<close>: the sum runs over every slot of the table, in \<open>size_t\<close>.\<close>

definition bpak_pkg_installed_size :: "'io bpak_package \<Rightarrow> 64 word" where
  "bpak_pkg_installed_size pkg =
     fold (\<lambda>p installed_size. installed_size + (part_size p + of_nat (pad_bytes p)))
       (parts (header pkg)) 0"

section \<open>Adding a file (pkg_create.c)\<close>

text \<open>Modelled from the spec: \<open>bpak_add_part\<close>, "append into first empty part slot. Fails with
  NO_SPACE if table full, EXISTS if a live slot already carries id". The result is the
  index of the slot.\<close>

fun first_empty_slot :: "bpak_part_header list \<Rightarrow> nat option" where
  "first_empty_slot [] = None"
| "first_empty_slot (p # ps) =
     (if part_id p = 0 then Some 0 else map_option Suc (first_empty_slot ps))"

definition bpak_add_part :: "bpak_header \<Rightarrow> 32 word \<Rightarrow> bpak_result + nat" where
  "bpak_add_part h ident =
     (if list_ex (\<lambda>p. part_id p \<noteq> 0 \<and> part_id p = ident) (parts h) then Inl BPAK_EXISTS
      else (case first_empty_slot (parts h) of
              None \<Rightarrow> Inl BPAK_NO_SPACE
            | Some i \<Rightarrow> Inr i))"

text \<open>The file named by \<open>filename\<close> as the two calls see it: the size \<open>stat\<close> reports
  (\<open>None\<close> when \<open>stat\<close> fails) and the bytes \<open>fread\<close> delivers once \<open>fopen\<close> has succeeded
  (\<open>None\<close> when it fails). Nothing ties the two together.\<close>

record host_file =
  st_size :: "nat option"
  contents :: "byte list option"

text \<open>The copy loop \<open>while (bytes_to_write)\<close>: \<open>fread\<close> asks for 512 bytes whatever is left to
  write, and the count goes down by what \<open>fread\<close> returned. The loop has no other exit
  than the count reaching zero or a short write, so it is a partial function: \<open>None\<close>
  is the loop that never ends. The arguments are the unread rest of the input file, the
  package stream and \<open>bytes_to_write\<close>.\<close>

partial_function (option) copy_loop ::
  "'io bpak_env \<Rightarrow> byte list \<Rightarrow> 'io \<Rightarrow> 64 word \<Rightarrow> (bpak_result \<times> 'io) option" where
  "copy_loop env inp s bytes_to_write =
     (if bytes_to_write = 0 then Some (BPAK_OK, s)
      else (case bpak_io_write env s (take 512 inp) of
              (n, s') \<Rightarrow>
                if n \<noteq> length (take 512 inp) then Some (BPAK_WRITE_ERROR, s')
                else copy_loop env (drop 512 inp) s' (bytes_to_write - of_nat (length (take 512 inp)))))"

text \<open>How a call of \<open>bpak_pkg_add_file\<close> ends: it returns, its copy loop never ends, or it
  reads past the end of \<open>chunk_buffer\<close>, which C leaves undefined.\<close>

datatype 'a run = Returns 'a | Never_Returns | Out_Of_Bounds

text \<open>The header fields \<open>bpak_pkg_add_file\<close> sets in the new slot.\<close>

definition new_part ::
  "'io bpak_env \<Rightarrow> bpak_part_header \<Rightarrow> 32 word \<Rightarrow> 64 word \<Rightarrow> 8 word \<Rightarrow> nat \<Rightarrow> bpak_part_header" where
  "new_part env p ident new_offset fl sz =
     p\<lparr>part_id := ident, offset := new_offset, flags := fl, part_size := of_nat sz,
       pad_bytes := (if sz mod BPAK_PART_ALIGN env \<noteq> 0
                     then (BPAK_PART_ALIGN env - sz mod BPAK_PART_ALIGN env) mod 2 ^ pad_bytes_width env
                     else 0)\<rparr>"

text \<open>\<open>bpak_pkg_add_file(pkg, filename, part_name, flags)\<close>. The header is changed in place
  as soon as the slot is found, so the package returned on a later error carries the new
  part. pkg_create.c reaches the stream of the package with \<open>fseek\<close> and \<open>fwrite\<close> on
  \<open>pkg->fp\<close>; they are the seek and the write of the environment here. The padding is
  written out of \<open>chunk_buffer\<close>, an array of 512 bytes set to zero:
  \<open>fwrite(chunk_buffer, 1, p->pad_bytes, ...)\<close> with more than 512 bytes of padding reads
  past its end, and the call has no defined result.\<close>

definition bpak_pkg_add_file ::
  "'io bpak_env \<Rightarrow> 'io bpak_package \<Rightarrow> host_file \<Rightarrow> string \<Rightarrow> 8 word
     \<Rightarrow> (bpak_result \<times> 'io bpak_package) run" where
  "bpak_pkg_add_file env pkg file part_name fl =
     (case st_size file of
        None \<Rightarrow> Returns (BPAK_FAILED, pkg)
      | Some sz \<Rightarrow>
          let h = header pkg;
              new_offset = fold (\<lambda>p new_offset. new_offset + (part_size p + of_nat (pad_bytes p)))
                             (parts h) (of_nat sizeof_header)
          in (case bpak_add_part h (bpak_id env part_name) of
                Inl rc \<Rightarrow> Returns (rc, pkg)
              | Inr i \<Rightarrow>
                  let p = new_part env (parts h ! i) (bpak_id env part_name) new_offset fl sz;
                      pkg1 = pkg\<lparr>header := h\<lparr>parts := (parts h)[i := p]\<rparr>\<rparr>
                  in (case bpak_io_seek env (io pkg1) (unat new_offset) BPAK_IO_SEEK_SET of
                        (rc, s1) \<Rightarrow>
                          if rc \<noteq> BPAK_OK then Returns (BPAK_SEEK_ERROR, pkg1\<lparr>io := s1\<rparr>)
                          else (case contents file of
                                  None \<Rightarrow> Returns (BPAK_FAILED, pkg1\<lparr>io := s1\<rparr>)
                                | Some inp \<Rightarrow>
                                    (case copy_loop env inp s1 (part_size p) of
                                       None \<Rightarrow> Never_Returns
                                     | Some (rc2, s2) \<Rightarrow>
                                         if rc2 \<noteq> BPAK_OK then Returns (rc2, pkg1\<lparr>io := s2\<rparr>)
                                         else if pad_bytes p > 512 then Out_Of_Bounds
                                         else
                                           (case (if pad_bytes p \<noteq> 0
                                                  then bpak_io_write env s2 (replicate (pad_bytes p) 0)
                                                  else (0, s2)) of
                                              (n, s3) \<Rightarrow>
                                                if pad_bytes p \<noteq> 0 \<and> n \<noteq> pad_bytes p
                                                then Returns (BPAK_WRITE_ERROR, pkg1\<lparr>io := s3\<rparr>)
                                                else (case bpak_pkg_update_payload_hash env (pkg1\<lparr>io := s3\<rparr>) of
                                                        (rc4, pkg4) \<Rightarrow>
                                                          if rc4 \<noteq> BPAK_OK then Returns (BPAK_FAILED, pkg4)
                                                          else Returns (bpak_pkg_write_header env pkg4))))))))"

section \<open>Transport decoding (pkg.c)\<close>

text \<open>The decoder of bpak/transport.h is not among the sources. Its state \<open>'d\<close> stands for
  \<open>decode_ctx\<close> together with what its callbacks reach through \<open>decode_private\<close> (the output
  stream and the origin stream); the two offsets of \<open>decode_private\<close> that the loop sets
  are handed to \<open>bpak_transport_decode_start\<close>.\<close>

record ('d, 'io) bpak_transport =
  bpak_transport_decode_init :: "bpak_header \<Rightarrow> 'io \<Rightarrow> 'io option \<Rightarrow> bpak_result \<times> 'd"
  bpak_transport_decode_set_origin :: "'d \<Rightarrow> bpak_header \<Rightarrow> bpak_result \<times> 'd"
  bpak_transport_decode_start :: "'d \<Rightarrow> 64 word \<Rightarrow> 64 word \<Rightarrow> bpak_part_header \<Rightarrow> bpak_result \<times> 'd"
  bpak_transport_decode_write_chunk :: "'d \<Rightarrow> byte list \<Rightarrow> bpak_result \<times> 'd"
  bpak_transport_decode_finish :: "'d \<Rightarrow> bpak_result \<times> 'd"
  bpak_transport_decode_free :: "'d \<Rightarrow> 'd"

text \<open>The argument \<open>origin\<close> is a pointer to a \<open>struct bpak_package\<close> that may be null, and the
  loop also tests the \<open>io\<close> member of what it points to against null: \<open>None\<close> is the null
  pointer, and an origin package has an optional stream.\<close>

record 'io origin_package =
  origin_io :: "'io option"
  origin_header :: bpak_header

text \<open>Modelled from the spec: \<open>bpak_get_part\<close>, "linear scan of live slots; NOT_FOUND if
  absent".\<close>

definition bpak_get_part :: "bpak_header \<Rightarrow> 32 word \<Rightarrow> bpak_result + bpak_part_header" where
  "bpak_get_part h ident =
     (case find (\<lambda>p. part_id p \<noteq> 0 \<and> part_id p = ident) (parts h) of
        None \<Rightarrow> Inl BPAK_NOT_FOUND
      | Some p \<Rightarrow> Inr p)"

text \<open>What a call of \<open>bpak_pkg_transport_decode\<close> ends in: a read through the null pointer,
  or a return with the result code, the decoder state and the input stream.\<close>

datatype ('d, 'io) decode_outcome =
    Null_Dereference
  | Return bpak_result 'd 'io

text \<open>The loop \<open>while (bytes_to_process)\<close>: \<open>Inl\<close> is the direct \<open>return -BPAK_READ_ERROR\<close>,
  \<open>Inr\<close> the result code with which the loop is left.\<close>

function decode_chunks ::
  "'io bpak_env \<Rightarrow> ('d, 'io) bpak_transport \<Rightarrow> 'd \<Rightarrow> 'io \<Rightarrow> nat
     \<Rightarrow> ('d \<times> 'io) + (bpak_result \<times> 'd \<times> 'io)" where
  "decode_chunks env tr d s bytes_to_process =
     (if bytes_to_process = 0 then Inr (BPAK_OK, d, s)
      else
        let chunk_length = min bytes_to_process 4096
        in (case bpak_io_read env s chunk_length of
              (bs, s') \<Rightarrow>
                if length bs \<noteq> chunk_length then Inl (d, s')
                else (case bpak_transport_decode_write_chunk tr d bs of
                        (rc, d') \<Rightarrow>
                          if rc \<noteq> BPAK_OK then Inr (rc, d', s')
                          else decode_chunks env tr d' s' (bytes_to_process - chunk_length))))"
  by pat_completeness auto
termination
  by (relation "measure (\<lambda>(env, tr, d, s, n). n)") auto

declare decode_chunks.simps [simp del]

text \<open>The body of \<open>bpak_foreach_part(patch_header, part)\<close>. \<open>rc\<close> is the result code held
  when the loop is entered (it is what the function returns if the loop ends without
  assigning it) and \<open>origin_offset\<close> the member of \<open>decode_private\<close>, which keeps its value
  when no origin part is looked up. The test \<open>origin->io != NULL\<close> reads through \<open>origin\<close>
  without a null check.\<close>

fun decode_parts ::
  "'io bpak_env \<Rightarrow> ('d, 'io) bpak_transport \<Rightarrow> bpak_header \<Rightarrow> 'io origin_package option
     \<Rightarrow> bpak_result \<Rightarrow> 'd \<Rightarrow> 'io \<Rightarrow> 64 word \<Rightarrow> bpak_part_header list \<Rightarrow> ('d, 'io) decode_outcome" where
  "decode_parts env tr patch_header origin rc d s origin_offset [] =
     Return rc (bpak_transport_decode_free tr d) s"
| "decode_parts env tr patch_header origin rc d s origin_offset (part # ps) =
     (if part_id part = 0 then Return rc (bpak_transport_decode_free tr d) s
      else
        (case origin of
           None \<Rightarrow> Null_Dereference
         | Some orig \<Rightarrow>
             (case (if origin_io orig \<noteq> None
                    then (case bpak_get_part (origin_header orig) (part_id part) of
                            Inl e \<Rightarrow> Inl e
                          | Inr origin_part \<Rightarrow> Inr (bpak_part_offset (origin_header orig) origin_part))
                    else Inr origin_offset) of
                Inl e \<Rightarrow> Return e (bpak_transport_decode_free tr d) s
              | Inr origin_offset' \<Rightarrow>
                  (case bpak_transport_decode_start tr d origin_offset'
                          (bpak_part_offset patch_header part) part of
                     (rc1, d1) \<Rightarrow>
                       if rc1 \<noteq> BPAK_OK then Return rc1 (bpak_transport_decode_free tr d1) s
                       else
                         (case decode_chunks env tr d1 s (unat (bpak_part_size env part)) of
                            Inl (d2, s2) \<Rightarrow> Return BPAK_READ_ERROR d2 s2
                          | Inr (rc2, d2, s2) \<Rightarrow>
                              if rc2 \<noteq> BPAK_OK then Return rc2 (bpak_transport_decode_free tr d2) s2
                              else
                                (case bpak_transport_decode_finish tr d2 of
                                   (rc3, d3) \<Rightarrow>
                                     if rc3 \<noteq> BPAK_OK
                                     then Return rc3 (bpak_transport_decode_free tr d3) s2
                                     else decode_parts env tr patch_header origin rc3 d3 s2
                                            origin_offset' ps))))))"

text \<open>\<open>bpak_pkg_transport_decode(input, output, origin)\<close>.\<close>

definition bpak_pkg_transport_decode ::
  "'io bpak_env \<Rightarrow> ('d, 'io) bpak_transport \<Rightarrow> 'io bpak_package \<Rightarrow> 'io bpak_package
     \<Rightarrow> 'io origin_package option \<Rightarrow> ('d, 'io) decode_outcome" where
  "bpak_pkg_transport_decode env tr input output origin =
     (let patch_header = header input
      in (case bpak_transport_decode_init tr patch_header (io output)
                 (case origin of None \<Rightarrow> None | Some orig \<Rightarrow> origin_io orig) of
            (rc, d) \<Rightarrow>
              if rc \<noteq> BPAK_OK then Return rc (bpak_transport_decode_free tr d) (io input)
              else
                (case (case origin of
                         None \<Rightarrow> (BPAK_OK, d)
                       | Some orig \<Rightarrow> bpak_transport_decode_set_origin tr d (origin_header orig)) of
                   (rc1, d1) \<Rightarrow>
                     if rc1 \<noteq> BPAK_OK then Return rc1 (bpak_transport_decode_free tr d1) (io input)
                     else
                       (case bpak_io_seek env (io input) sizeof_header BPAK_IO_SEEK_SET of
                          (rc2, s) \<Rightarrow>
                            if rc2 \<noteq> BPAK_OK then Return rc2 d1 s
                            else decode_parts env tr patch_header origin rc2 d1 s 0
                                   (parts patch_header)))))"

section \<open>A stream in memory\<close>

text \<open>A seekable byte stream held in memory: the bytes of the file and a position. A read
  delivers what lies between the position and the end of the file; a write at or past the
  end extends the file, with zeros in the gap. Where \<open>BPAK_IO_SEEK_END\<close> lands is settled
  by the stream layer, which is not among the sources: the stream takes it as a
  parameter \<open>seek_end\<close>, which gives the new position from the length of the file and the
  offset, or \<open>None\<close> for a seek that fails.\<close>

record mem_io =
  io_data :: "byte list"
  io_position :: nat

definition mem_seek ::
  "(nat \<Rightarrow> nat \<Rightarrow> nat option) \<Rightarrow> mem_io \<Rightarrow> nat \<Rightarrow> bpak_io_seek_dir \<Rightarrow> bpak_result \<times> mem_io" where
  "mem_seek seek_end s n dir =
     (case dir of
        BPAK_IO_SEEK_SET \<Rightarrow> (BPAK_OK, s\<lparr>io_position := n\<rparr>)
      | BPAK_IO_SEEK_FWD \<Rightarrow> (BPAK_OK, s\<lparr>io_position := io_position s + n\<rparr>)
      | BPAK_IO_SEEK_END \<Rightarrow>
          (case seek_end (length (io_data s)) n of
             None \<Rightarrow> (BPAK_SEEK_ERROR, s)
           | Some pos \<Rightarrow> (BPAK_OK, s\<lparr>io_position := pos\<rparr>)))"

text \<open>Modelled from the spec: a seek from the end that counts back, "seek to end - 4096".\<close>

definition end_minus :: "nat \<Rightarrow> nat \<Rightarrow> nat option" where
  "end_minus len n = (if n \<le> len then Some (len - n) else None)"

text \<open>A seek from the end that counts on, as \<open>fseek(fp, n, SEEK_END)\<close> of the C library does
  with a positive offset.\<close>

definition end_plus :: "nat \<Rightarrow> nat \<Rightarrow> nat option" where
  "end_plus len n = Some (len + n)"

definition mem_read :: "mem_io \<Rightarrow> nat \<Rightarrow> byte list \<times> mem_io" where
  "mem_read s n =
     (let bs = take n (drop (io_position s) (io_data s))
      in (bs, s\<lparr>io_position := io_position s + length bs\<rparr>))"

definition mem_write :: "mem_io \<Rightarrow> byte list \<Rightarrow> nat \<times> mem_io" where
  "mem_write s bs =
     (let pos = io_position s;
          old = io_data s @ replicate (pos - length (io_data s)) 0
      in (length bs,
          s\<lparr>io_data := take pos old @ bs @ drop (pos + length bs) old,
            io_position := pos + length bs\<rparr>))"

text \<open>An environment over the memory stream: \<open>bpak_io_init_file\<close> opens the given bytes
  whatever the name, allocation succeeds, and the remaining members are those of
  \<open>rest\<close>.\<close>

definition mem_env ::
  "(nat \<Rightarrow> nat \<Rightarrow> nat option) \<Rightarrow> byte list \<Rightarrow> mem_io bpak_env \<Rightarrow> mem_io bpak_env" where
  "mem_env seek_end file rest =
     rest\<lparr>malloc_ok := True,
          bpak_io_init_file := (\<lambda>filename mode. (BPAK_OK, \<lparr>io_data = file, io_position = 0\<rparr>)),
          bpak_io_seek := mem_seek seek_end,
          bpak_io_read := mem_read,
          bpak_io_write := mem_write\<rparr>"

section \<open>The copy of pkg.c on C streams\<close>

text \<open>The sources hold a second copy of pkg.c, in which the package keeps a \<open>FILE *\<close>
  (\<open>pkg->fp\<close>, here the member \<open>io\<close>) and the stream calls are those of the C library. On
  a regular file held in memory, and for the offsets of the calls below, which are never
  negative: \<open>fseek(fp, n, SEEK_SET)\<close> goes to offset \<open>n\<close> and \<open>fseek(fp, n, SEEK_END)\<close> to
  \<open>n\<close> bytes past the end, both returning 0; \<open>fread\<close> delivers what lies between the
  position and the end; \<open>fwrite\<close> at or past the end extends the file.\<close>

datatype whence = SEEK_SET | SEEK_END

definition fseek :: "mem_io \<Rightarrow> nat \<Rightarrow> whence \<Rightarrow> int \<times> mem_io" where
  "fseek fp n w =
     (case w of
        SEEK_SET \<Rightarrow> (0, fp\<lparr>io_position := n\<rparr>)
      | SEEK_END \<Rightarrow> (0, fp\<lparr>io_position := length (io_data fp) + n\<rparr>))"

definition fread :: "mem_io \<Rightarrow> nat \<Rightarrow> byte list \<times> mem_io" where
  "fread fp n =
     (let bs = take n (drop (io_position fp) (io_data fp))
      in (bs, fp\<lparr>io_position := io_position fp + length bs\<rparr>))"

definition fwrite :: "mem_io \<Rightarrow> byte list \<Rightarrow> nat \<times> mem_io" where
  "fwrite fp bs =
     (let pos = io_position fp;
          old = io_data fp @ replicate (pos - length (io_data fp)) 0
      in (length bs,
          fp\<lparr>io_data := take pos old @ bs @ drop (pos + length bs) old,
             io_position := pos + length bs\<rparr>))"

text \<open>\<open>bpak_pkg_open(pkg, filename, mode)\<close> of that copy. \<open>fopen\<close> is a parameter: the stream
  it opens, or \<open>None\<close> for a null pointer. The result is the code returned and the package
  as it is left open; \<open>None\<close> stands for the returns that leave no open stream. As in
  pkg.c, every \<open>rc\<close> set before \<open>skip_header\<close> is dropped there.\<close>

definition bpak_pkg_open_fp ::
  "'e bpak_env \<Rightarrow> (string \<Rightarrow> string \<Rightarrow> mem_io option) \<Rightarrow> string \<Rightarrow> string option
     \<Rightarrow> bpak_result \<times> mem_io bpak_package option" where
  "bpak_pkg_open_fp env fopen filename mode =
     (case mode of
        None \<Rightarrow> (BPAK_FAILED, None)
      | Some m \<Rightarrow>
          (case fopen filename m of
             None \<Rightarrow> (BPAK_NOT_FOUND, None)
           | Some fp0 \<Rightarrow>
               (case fseek fp0 0 SEEK_SET of
                  (r1, fp1) \<Rightarrow>
                    if r1 \<noteq> 0 then (BPAK_SEEK_ERROR, None)
                    else
                      (case
                         (case fread fp1 sizeof_header of
                            (bs, fp2) \<Rightarrow>
                              let img1 = memcpy (replicate sizeof_header 0) bs
                                           (min sizeof_header (length bs))
                              in if length bs \<noteq> sizeof_header
                                 then (fp2, img1, BPAK_HEADER_POS_FIRST)
                                 else if bpak_valid_header env (header_of_image env img1) = BPAK_OK
                                 then (fp2, img1, BPAK_HEADER_POS_FIRST)
                                 else
                                   (case fseek fp2 4096 SEEK_END of
                                      (r2, fp3) \<Rightarrow>
                                        if r2 \<noteq> 0 then (fp3, img1, BPAK_HEADER_POS_FIRST)
                                        else
                                          (case fread fp3 sizeof_header of
                                             (bs', fp4) \<Rightarrow>
                                               let img2 = memcpy img1 bs'
                                                            (min sizeof_header (length bs'))
                                               in if length bs' \<noteq> sizeof_header
                                                  then (fp4, img2, BPAK_HEADER_POS_FIRST)
                                                  else if bpak_valid_header env
                                                            (header_of_image env img2) \<noteq> BPAK_OK
                                                  then (fp4, img2, BPAK_HEADER_POS_FIRST)
                                                  else (fp4, img2, BPAK_HEADER_POS_LAST)))) of
                         (fp5, img, loc) \<Rightarrow>
                           (case fseek fp5 0 SEEK_SET of
                              (r3, fp6) \<Rightarrow>
                                if r3 \<noteq> 0 then (BPAK_SEEK_ERROR, None)
                                else (BPAK_OK,
                                      Some \<lparr>io = fp6, header = header_of_image env img,
                                            header_location = loc\<rparr>))))))"

text \<open>\<open>bpak_pkg_write_header(pkg)\<close> of that copy.\<close>

definition bpak_pkg_write_header_fp ::
  "'e bpak_env \<Rightarrow> mem_io bpak_package \<Rightarrow> bpak_result \<times> mem_io bpak_package" where
  "bpak_pkg_write_header_fp env pkg =
     (case (if header_location pkg = BPAK_HEADER_POS_FIRST
            then fseek (io pkg) 0 SEEK_SET
            else fseek (io pkg) sizeof_header SEEK_END) of
        (r, fp) \<Rightarrow>
          if r \<noteq> 0 then (BPAK_SEEK_ERROR, pkg\<lparr>io := fp\<rparr>)
          else (case fwrite fp (header_bytes env (header pkg)) of
                  (bytes_written, fp') \<Rightarrow>
                    if bytes_written \<noteq> sizeof_header then (BPAK_WRITE_ERROR, pkg\<lparr>io := fp'\<rparr>)
                    else (BPAK_OK, pkg\<lparr>io := fp'\<rparr>)))"

section \<open>Sample values\<close>

text \<open>Modelled from the spec: an empty slot of the part table and the header of a fresh
  archive, with the table sizes of the data model ("N_PARTS (target: 32)", "N_META (target:
  32)", "meta_data byte pool (target: 2048 bytes)", signature 512 bytes, payload hash 64
  bytes) and every field zero.\<close>

definition empty_part :: bpak_part_header where
  "empty_part = \<lparr>part_id = 0, part_size = 0, transport_size = 0, offset = 0, pad_bytes = 0, flags = 0\<rparr>"

definition empty_meta :: bpak_meta_header where
  "empty_meta = \<lparr>meta_id = 0, part_id_ref = 0, data_offset = 0, meta_size = 0\<rparr>"

definition zero_header :: bpak_header where
  "zero_header =
     \<lparr>magic = 0, version = 0, hash_kind = 0, signature_kind = 0,
      payload_hash = replicate 64 0, signature = replicate 512 0, signature_sz = 0,
      keystore_id = 0, key_id = 0, alignment = 0,
      meta = replicate 32 empty_meta, meta_data = replicate 2048 0,
      parts = replicate 32 empty_part\<rparr>"

text \<open>A small environment to run the functions in: a header is valid when its magic is
  right, the image of a header is its magic followed by zeros, the "digest" is the data
  itself (cut or padded to the digest length by \<open>md_finish\<close>), an uninitialised buffer holds
  the byte \<open>0xAA\<close>, a part takes the bytes the specification says, a seek from the end
  counts on, \<open>pad_bytes\<close> is 16 bits wide and parts are aligned to 4096.\<close>

definition sample_magic :: "32 word" where
  "sample_magic = 0x42504B41"

definition sample_of_image :: "byte list \<Rightarrow> bpak_header" where
  "sample_of_image bs =
     zero_header\<lparr>magic := (if take 4 bs = [0x41, 0x4B, 0x50, 0x42] then sample_magic else 0)\<rparr>"

definition sample_image :: "bpak_header \<Rightarrow> byte list" where
  "sample_image h =
     (if magic h = sample_magic then [0x41, 0x4B, 0x50, 0x42] else [0, 0, 0, 0]) @ replicate 4092 0"

definition sample_env :: "mem_io bpak_env" where
  "sample_env =
     \<lparr>malloc_ok = True,
      bpak_io_init_file = (\<lambda>filename mode. (BPAK_OK, \<lparr>io_data = [], io_position = 0\<rparr>)),
      bpak_io_seek = mem_seek end_plus,
      bpak_io_read = mem_read,
      bpak_io_write = mem_write,
      bpak_valid_header = (\<lambda>h. if magic h = sample_magic then BPAK_OK else BPAK_FAILED),
      header_image = sample_image,
      header_of_image = sample_of_image,
      mbedtls_digest = (\<lambda>a bs. bs),
      bpak_id = (\<lambda>name. of_nat (length name)),
      bpak_part_size = part_size_spec,
      uninitialised = replicate 512 0xAA,
      pad_bytes_width = 16,
      BPAK_PART_ALIGN = 4096\<rparr>"


text \<open>A package with the signature and its size replaced.\<close>

definition with_signature :: "'io bpak_package \<Rightarrow> byte list \<Rightarrow> 16 word \<Rightarrow> 'io bpak_package" where
  "with_signature pkg sig n = pkg\<lparr>header := (header pkg)\<lparr>signature := sig, signature_sz := n\<rparr>\<rparr>"

text \<open>A decoder to run \<open>bpak_pkg_transport_decode\<close> with: every call succeeds and the state
  is the bytes written so far, each chunk copied as it is.\<close>

definition sample_transport :: "(byte list, mem_io) bpak_transport" where
  "sample_transport =
     \<lparr>bpak_transport_decode_init = (\<lambda>h out orig. (BPAK_OK, [])),
      bpak_transport_decode_set_origin = (\<lambda>d h. (BPAK_OK, d)),
      bpak_transport_decode_start = (\<lambda>d origin_offset output_offset part. (BPAK_OK, d)),
      bpak_transport_decode_write_chunk = (\<lambda>d bs. (BPAK_OK, d @ bs)),
      bpak_transport_decode_finish = (\<lambda>d. (BPAK_OK, d)),
      bpak_transport_decode_free = (\<lambda>d. d)\<rparr>"

text \<open>A package with one live part of three bytes, stored after the header, and no
  metadata.\<close>

definition sample_input :: "mem_io bpak_package" where
  "sample_input =
     \<lparr>io = \<lparr>io_data = replicate 4096 0 @ [1, 2, 3], io_position = 0\<rparr>,
      header = zero_header\<lparr>hash_kind := BPAK_HASH_SHA256,
                 parts := \<lparr>part_id = 7, part_size = 3, transport_size = 0, offset = 4096,
                            pad_bytes = 0, flags = 0\<rparr> # replicate 31 empty_part\<rparr>,
      header_location = BPAK_HEADER_POS_FIRST\<rparr>"

definition sample_output :: "mem_io bpak_package" where
  "sample_output =
     \<lparr>io = \<lparr>io_data = [], io_position = 0\<rparr>, header = zero_header,
      header_location = BPAK_HEADER_POS_FIRST\<rparr>"

section \<open>Reference walks over the payload\<close>









text \<open>A file of 8192 bytes whose last 4096 bytes are a valid header (for \<open>sample_env\<close>) and
  whose first 4096 bytes are not, and the package of that file, its header at the tail.\<close>

definition tail_file :: "byte list" where
  "tail_file = replicate 4096 0 @ sample_image (zero_header\<lparr>magic := sample_magic\<rparr>)"

definition tail_package :: "mem_io bpak_package" where
  "tail_package =
     \<lparr>io = \<lparr>io_data = tail_file, io_position = 0\<rparr>,
      header = zero_header\<lparr>magic := sample_magic\<rparr>,
      header_location = BPAK_HEADER_POS_LAST\<rparr>"

text \<open>A fresh archive with the header in front, and a file of 8193 bytes.\<close>

definition fresh_package :: "mem_io bpak_package" where
  "fresh_package =
     \<lparr>io = \<lparr>io_data = replicate 4096 0, io_position = 0\<rparr>,
      header = zero_header\<lparr>hash_kind := BPAK_HASH_SHA256\<rparr>,
      header_location = BPAK_HEADER_POS_FIRST\<rparr>"

definition kernel_bin :: host_file where
  "kernel_bin = \<lparr>st_size = Some 8193, contents = Some (replicate 8193 0x55)\<rparr>"

section \<open>The header hash and the signature\<close>

lemma hash_switch_unsupported:
  "hash_switch 0 sz = Inl BPAK_NOT_SUPPORTED"
  by (simp add: hash_switch_def BPAK_HASH_SHA256_def BPAK_HASH_SHA384_def BPAK_HASH_SHA512_def)

lemma hash_switch_small:
  "hash_switch 1 16 = Inl BPAK_FAILED"
  by (simp add: hash_switch_def BPAK_HASH_SHA256_def)

text \<open>C1. The claim: when \<open>bpak_pkg_compute_header_hash\<close> fails, the header is unchanged, and
  \<open>signature\<close> and \<open>signature_sz\<close> hold their values from before the call. The code at two
  inputs, one with an unknown \<open>hash_kind\<close> and one with an output buffer of 16 bytes for
  SHA-256: the function returns the error with the signature zeroed and its size 0.\<close>

theorem compute_header_hash_error_clears_signature:
  "bpak_pkg_compute_header_hash env
     \<lparr>io = s, header = zero_header\<lparr>hash_kind := 0, signature := replicate 512 0x5A, signature_sz := 64\<rparr>,
      header_location = BPAK_HEADER_POS_FIRST\<rparr> output sz False
   = (BPAK_NOT_SUPPORTED,
      \<lparr>io = s, header = zero_header\<lparr>hash_kind := 0, signature := replicate 512 0, signature_sz := 0\<rparr>,
       header_location = BPAK_HEADER_POS_FIRST\<rparr>, output, sz)
   \<and> bpak_pkg_compute_header_hash env
     \<lparr>io = s, header = zero_header\<lparr>hash_kind := 1, signature := replicate 512 0x5A, signature_sz := 64\<rparr>,
      header_location = BPAK_HEADER_POS_FIRST\<rparr> output 16 False
   = (BPAK_FAILED,
      \<lparr>io = s, header = zero_header\<lparr>hash_kind := 1, signature := replicate 512 0, signature_sz := 0\<rparr>,
       header_location = BPAK_HEADER_POS_FIRST\<rparr>, output, 16)"
  by (simp add: bpak_pkg_compute_header_hash_def hash_switch_unsupported hash_switch_small
      zero_header_def)

lemma with_signature_sel:
  "io (with_signature pkg sig n) = io pkg"
  "header_location (with_signature pkg sig n) = header_location pkg"
  "hash_kind (header (with_signature pkg sig n)) = hash_kind (header pkg)"
  "parts (header (with_signature pkg sig n)) = parts (header pkg)"
  "payload_hash (header (with_signature pkg sig n)) = payload_hash (header pkg)"
  "(with_signature pkg sig n)\<lparr>io := s\<rparr> = with_signature (pkg\<lparr>io := s\<rparr>) sig n"
  "(with_signature pkg sig n)\<lparr>header := (header (with_signature pkg sig n))\<lparr>payload_hash := ph\<rparr>\<rparr>
     = with_signature (pkg\<lparr>header := (header pkg)\<lparr>payload_hash := ph\<rparr>\<rparr>) sig n"
  "(header (with_signature pkg sig n))\<lparr>signature := z, signature_sz := k\<rparr>
     = (header pkg)\<lparr>signature := z, signature_sz := k\<rparr>"
  by (simp_all add: with_signature_def)

lemma payload_feed_with_signature:
  "payload_feed env (with_signature pkg sig n) = payload_feed env pkg"
  by (simp add: payload_feed_def with_signature_sel)

lemma compute_payload_hash_with_signature:
  "bpak_pkg_compute_payload_hash env (with_signature pkg sig n) output sz =
     (case bpak_pkg_compute_payload_hash env pkg output sz of
        (rc, pkg', out') \<Rightarrow> (rc, with_signature pkg' sig n, out'))"
  by (simp add: bpak_pkg_compute_payload_hash_def payload_feed_with_signature
      with_signature_sel split: sum.splits prod.splits)

lemma update_payload_hash_with_signature:
  "bpak_pkg_update_payload_hash env (with_signature pkg sig n) =
     (case bpak_pkg_update_payload_hash env pkg of (rc, pkg') \<Rightarrow> (rc, with_signature pkg' sig n))"
  by (simp add: bpak_pkg_update_payload_hash_def compute_payload_hash_with_signature
      with_signature_sel split: prod.splits)

lemma compute_header_hash_with_signature:
  "(case bpak_pkg_compute_header_hash env (with_signature pkg sig n) output sz u of
      (rc, pkg', out') \<Rightarrow> (rc, out')) =
   (case bpak_pkg_compute_header_hash env pkg output sz u of (rc, pkg', out') \<Rightarrow> (rc, out'))"
proof (cases u)
  case False
  then show ?thesis
    by (simp add: bpak_pkg_compute_header_hash_def Let_def with_signature_sel
        split: sum.splits prod.splits)
next
  case True
  obtain rc p1 where p: "bpak_pkg_update_payload_hash env pkg = (rc, p1)"
    by (cases "bpak_pkg_update_payload_hash env pkg")
  with True show ?thesis
    by (simp add: bpak_pkg_compute_header_hash_def Let_def update_payload_hash_with_signature
        with_signature_sel split: sum.splits prod.splits)
qed

text \<open>C5. For any two values of \<open>signature\<close> and \<open>signature_sz\<close> in the header of a package,
  \<open>bpak_pkg_compute_payload_hash\<close> gives the same result code, the same output buffer (the
  digest) and the same \<open>*size\<close> on both variants, and so does
  \<open>bpak_pkg_compute_header_hash\<close>, with or without the refresh of the payload hash.\<close>

theorem hashes_ignore_signature:
  "(case bpak_pkg_compute_payload_hash env (with_signature pkg sig1 n1) output sz of
      (rc, pkg', out') \<Rightarrow> (rc, out')) =
   (case bpak_pkg_compute_payload_hash env (with_signature pkg sig2 n2) output sz of
      (rc, pkg', out') \<Rightarrow> (rc, out'))
   \<and>
   (case bpak_pkg_compute_header_hash env (with_signature pkg sig1 n1) output sz u of
      (rc, pkg', out') \<Rightarrow> (rc, out')) =
   (case bpak_pkg_compute_header_hash env (with_signature pkg sig2 n2) output sz u of
      (rc, pkg', out') \<Rightarrow> (rc, out'))"
  by (simp add: compute_payload_hash_with_signature compute_header_hash_with_signature
      split: prod.splits)

section \<open>Opening a package\<close>

lemma mem_env_sel:
  "malloc_ok (mem_env se file rest) = True"
  "bpak_io_init_file (mem_env se file rest) = (\<lambda>filename mode. (BPAK_OK, \<lparr>io_data = file, io_position = 0\<rparr>))"
  "bpak_io_seek (mem_env se file rest) = mem_seek se"
  "bpak_io_read (mem_env se file rest) = mem_read"
  "bpak_io_write (mem_env se file rest) = mem_write"
  "bpak_valid_header (mem_env se file rest) = bpak_valid_header rest"
  "header_image (mem_env se file rest) = header_image rest"
  "header_of_image (mem_env se file rest) = header_of_image rest"
  "mbedtls_digest (mem_env se file rest) = mbedtls_digest rest"
  "bpak_id (mem_env se file rest) = bpak_id rest"
  "bpak_part_size (mem_env se file rest) = bpak_part_size rest"
  "uninitialised (mem_env se file rest) = uninitialised rest"
  "pad_bytes_width (mem_env se file rest) = pad_bytes_width rest"
  "BPAK_PART_ALIGN (mem_env se file rest) = BPAK_PART_ALIGN rest"
  by (simp_all add: mem_env_def)

lemma sample_env_sel:
  "bpak_valid_header sample_env = (\<lambda>h. if magic h = sample_magic then BPAK_OK else BPAK_FAILED)"
  "header_image sample_env = sample_image"
  "header_of_image sample_env = sample_of_image"
  "mbedtls_digest sample_env = (\<lambda>a bs. bs)"
  "bpak_id sample_env = (\<lambda>name. of_nat (length name))"
  "bpak_part_size sample_env = part_size_spec"
  "uninitialised sample_env = replicate 512 0xAA"
  "pad_bytes_width sample_env = 16"
  "BPAK_PART_ALIGN sample_env = 4096"
  by (simp_all add: sample_env_def)

lemma replicate_four:
  "replicate 4 x = [x, x, x, x]"
  by (simp add: numeral_eq_Suc)

lemma memcpy_whole:
  "length src = n \<Longrightarrow> length dst \<le> n \<Longrightarrow> memcpy dst src n = src"
  by (simp add: memcpy_def)

text \<open>The three ways through the two candidate reads when both deliver 4096 bytes.\<close>

lemma open_read_header_front:
  assumes "bpak_io_read env s sizeof_header = (bs1, s1)"
    and "length bs1 = sizeof_header"
    and "bpak_valid_header env (header_of_image env bs1) = BPAK_OK"
  shows "open_read_header env s = (s1, bs1, BPAK_HEADER_POS_FIRST)"
  using assms by (simp add: open_read_header_def memcpy_whole)

lemma open_read_header_tail:
  assumes "bpak_io_read env s sizeof_header = (bs1, s1)"
    and "length bs1 = sizeof_header"
    and "bpak_valid_header env (header_of_image env bs1) \<noteq> BPAK_OK"
    and "bpak_io_seek env s1 4096 BPAK_IO_SEEK_END = (BPAK_OK, s2)"
    and "bpak_io_read env s2 sizeof_header = (bs2, s3)"
    and "length bs2 = sizeof_header"
  shows "open_read_header env s =
     (s3, bs2, if bpak_valid_header env (header_of_image env bs2) = BPAK_OK
               then BPAK_HEADER_POS_LAST else BPAK_HEADER_POS_FIRST)"
  using assms by (simp add: open_read_header_def memcpy_whole)

lemma open_read_header_location:
  "open_read_header env s = (s', img, BPAK_HEADER_POS_LAST) \<Longrightarrow>
     bpak_valid_header env (header_of_image env img) = BPAK_OK"
  by (auto simp add: open_read_header_def Let_def split: prod.splits if_splits)

lemma open_after_read_header:
  assumes "mode = Some m"
    and "malloc_ok env"
    and "bpak_io_init_file env filename m = (BPAK_OK, s0)"
    and "bpak_io_seek env s0 0 BPAK_IO_SEEK_SET = (BPAK_OK, s1)"
    and "open_read_header env s1 = (s2, img, loc)"
    and "bpak_io_seek env s2 0 BPAK_IO_SEEK_SET = (BPAK_OK, s3)"
  shows "bpak_pkg_open env filename mode =
      (BPAK_OK, Package \<lparr>io = s3, header = header_of_image env img, header_location = loc\<rparr>)"
  using assms by (simp add: bpak_pkg_open_def)

text \<open>C2. The claim: when the first 4096 bytes and the last 4096 bytes of the file both fail
  validation, \<open>bpak_pkg_open\<close> returns an error. The code on a file of 8192 zero bytes, with
  a validation that asks for the magic and a stream whose seek from the end counts back:
  both candidates are read, neither is valid, and the function returns \<open>BPAK_OK\<close> with the
  package, its header the invalid image of zeros.\<close>

theorem open_invalid_header_counterexample:
  "bpak_valid_header sample_env (header_of_image sample_env (take 4096 (replicate 8192 0))) \<noteq> BPAK_OK
   \<and> bpak_valid_header sample_env (header_of_image sample_env (drop (8192 - 4096) (replicate 8192 0))) \<noteq> BPAK_OK
   \<and> bpak_pkg_open (mem_env end_minus (replicate 8192 0) sample_env) ''a.bpak'' (Some ''r'')
       = (BPAK_OK, Package \<lparr>io = \<lparr>io_data = replicate 8192 0, io_position = 0\<rparr>,
                             header = zero_header,
                             header_location = BPAK_HEADER_POS_FIRST\<rparr>)"
  by (simp add: bpak_pkg_open_def open_read_header_def mem_env_sel sample_env_sel mem_seek_def
      end_minus_def mem_read_def sizeof_header_def memcpy_def sample_of_image_def sample_magic_def
      zero_header_def Let_def replicate_four)

text \<open>C2, as amended: the result of validation does not reach the return value. Whenever
  \<open>mode\<close> is not null, allocation and the opening of the stream succeed and the stream can
  seek to offset 0, \<open>bpak_pkg_open\<close> returns \<open>BPAK_OK\<close> with a package, valid header or not,
  and the location is \<open>BPAK_HEADER_POS_LAST\<close> only when the header passed validation. With
  \<open>bs1\<close> the 4096 bytes read at offset 0 and \<open>bs2\<close> the 4096 bytes read after the seek from
  the end: when \<open>bs1\<close> is valid the header is \<open>bs1\<close> and the location is the front; when
  \<open>bs1\<close> is not valid and \<open>bs2\<close> is, the header is \<open>bs2\<close> and the location is the tail; when
  neither is valid the header is \<open>bs2\<close>, the last image read, and the location is the
  front. The stream of the package is the one left by the last seek to 0.\<close>

theorem open_returns_ok_whatever_the_header:
  assumes mode: "mode = Some m"
    and malloc: "malloc_ok env"
    and init: "bpak_io_init_file env filename m = (BPAK_OK, s0)"
    and seek0: "\<forall>s. fst (bpak_io_seek env s 0 BPAK_IO_SEEK_SET) = BPAK_OK"
  shows "(\<exists>pkg. bpak_pkg_open env filename mode = (BPAK_OK, Package pkg)
           \<and> (header_location pkg = BPAK_HEADER_POS_LAST
                \<longrightarrow> bpak_valid_header env (header pkg) = BPAK_OK))
       \<and> (bpak_io_read env (snd (bpak_io_seek env s0 0 BPAK_IO_SEEK_SET)) sizeof_header = (bs1, s2)
            \<and> length bs1 = sizeof_header
            \<and> bpak_valid_header env (header_of_image env bs1) = BPAK_OK
          \<longrightarrow> bpak_pkg_open env filename mode
               = (BPAK_OK, Package \<lparr>io = snd (bpak_io_seek env s2 0 BPAK_IO_SEEK_SET),
                                     header = header_of_image env bs1,
                                     header_location = BPAK_HEADER_POS_FIRST\<rparr>))
       \<and> (bpak_io_read env (snd (bpak_io_seek env s0 0 BPAK_IO_SEEK_SET)) sizeof_header = (bs1, s2)
            \<and> length bs1 = sizeof_header
            \<and> bpak_valid_header env (header_of_image env bs1) \<noteq> BPAK_OK
            \<and> bpak_io_seek env s2 4096 BPAK_IO_SEEK_END = (BPAK_OK, s3)
            \<and> bpak_io_read env s3 sizeof_header = (bs2, s4)
            \<and> length bs2 = sizeof_header
            \<and> bpak_valid_header env (header_of_image env bs2) = BPAK_OK
          \<longrightarrow> bpak_pkg_open env filename mode
               = (BPAK_OK, Package \<lparr>io = snd (bpak_io_seek env s4 0 BPAK_IO_SEEK_SET),
                                     header = header_of_image env bs2,
                                     header_location = BPAK_HEADER_POS_LAST\<rparr>))
       \<and> (bpak_io_read env (snd (bpak_io_seek env s0 0 BPAK_IO_SEEK_SET)) sizeof_header = (bs1, s2)
            \<and> length bs1 = sizeof_header
            \<and> bpak_valid_header env (header_of_image env bs1) \<noteq> BPAK_OK
            \<and> bpak_io_seek env s2 4096 BPAK_IO_SEEK_END = (BPAK_OK, s3)
            \<and> bpak_io_read env s3 sizeof_header = (bs2, s4)
            \<and> length bs2 = sizeof_header
            \<and> bpak_valid_header env (header_of_image env bs2) \<noteq> BPAK_OK
          \<longrightarrow> bpak_pkg_open env filename mode
               = (BPAK_OK, Package \<lparr>io = snd (bpak_io_seek env s4 0 BPAK_IO_SEEK_SET),
                                     header = header_of_image env bs2,
                                     header_location = BPAK_HEADER_POS_FIRST\<rparr>))"
proof -
  let ?s1 = "snd (bpak_io_seek env s0 0 BPAK_IO_SEEK_SET)"
  have sk: "bpak_io_seek env s 0 BPAK_IO_SEEK_SET = (BPAK_OK, snd (bpak_io_seek env s 0 BPAK_IO_SEEK_SET))"
    for s
    using seek0 by (metis prod.collapse)
  have general: "\<exists>pkg. bpak_pkg_open env filename mode = (BPAK_OK, Package pkg)
           \<and> (header_location pkg = BPAK_HEADER_POS_LAST
                \<longrightarrow> bpak_valid_header env (header pkg) = BPAK_OK)"
  proof -
    obtain t img loc where rd: "open_read_header env ?s1 = (t, img, loc)"
      by (cases "open_read_header env ?s1")
    have "bpak_pkg_open env filename mode =
        (BPAK_OK, Package \<lparr>io = snd (bpak_io_seek env t 0 BPAK_IO_SEEK_SET),
                            header = header_of_image env img, header_location = loc\<rparr>)"
      using mode malloc init sk [of s0] rd sk [of t] by (rule open_after_read_header)
    moreover have "loc = BPAK_HEADER_POS_LAST \<longrightarrow> bpak_valid_header env (header_of_image env img) = BPAK_OK"
      using rd by (auto dest: open_read_header_location)
    ultimately show ?thesis by simp
  qed
  have front: "bpak_pkg_open env filename mode
               = (BPAK_OK, Package \<lparr>io = snd (bpak_io_seek env s2 0 BPAK_IO_SEEK_SET),
                                     header = header_of_image env bs1,
                                     header_location = BPAK_HEADER_POS_FIRST\<rparr>)"
    if "bpak_io_read env ?s1 sizeof_header = (bs1, s2)"
      "length bs1 = sizeof_header" "bpak_valid_header env (header_of_image env bs1) = BPAK_OK"
  proof -
    have "open_read_header env ?s1 = (s2, bs1, BPAK_HEADER_POS_FIRST)"
      using that by (rule open_read_header_front)
    with mode malloc init sk [of s0] show ?thesis
      using sk [of s2] by (rule open_after_read_header)
  qed
  have tail: "bpak_pkg_open env filename mode
               = (BPAK_OK, Package \<lparr>io = snd (bpak_io_seek env s4 0 BPAK_IO_SEEK_SET),
                                     header = header_of_image env bs2,
                                     header_location =
                                       (if bpak_valid_header env (header_of_image env bs2) = BPAK_OK
                                        then BPAK_HEADER_POS_LAST else BPAK_HEADER_POS_FIRST)\<rparr>)"
    if "bpak_io_read env ?s1 sizeof_header = (bs1, s2)"
      "length bs1 = sizeof_header" "bpak_valid_header env (header_of_image env bs1) \<noteq> BPAK_OK"
      "bpak_io_seek env s2 4096 BPAK_IO_SEEK_END = (BPAK_OK, s3)"
      "bpak_io_read env s3 sizeof_header = (bs2, s4)"
      "length bs2 = sizeof_header"
  proof -
    have "open_read_header env ?s1 =
       (s4, bs2, if bpak_valid_header env (header_of_image env bs2) = BPAK_OK
                 then BPAK_HEADER_POS_LAST else BPAK_HEADER_POS_FIRST)"
      using that by (rule open_read_header_tail)
    with mode malloc init sk [of s0] show ?thesis
      using sk [of s4] by (rule open_after_read_header)
  qed
  show ?thesis
    using general front tail by simp
qed

theorem open_returns_ok_whatever_the_header_witness:
  "bpak_pkg_open (mem_env end_minus (replicate 4096 0x11 @ replicate 4096 0x22) sample_env)
       ''a.bpak'' (Some ''r'')
     = (BPAK_OK, Package \<lparr>io = \<lparr>io_data = replicate 4096 0x11 @ replicate 4096 0x22,
                                 io_position = 0\<rparr>,
                           header = header_of_image sample_env (replicate 4096 0x22),
                           header_location = BPAK_HEADER_POS_FIRST\<rparr>)
   \<and> bpak_valid_header sample_env (header_of_image sample_env (replicate 4096 0x11)) \<noteq> BPAK_OK
   \<and> bpak_valid_header sample_env (header_of_image sample_env (replicate 4096 0x22)) \<noteq> BPAK_OK"
proof -
  let ?file = "replicate 4096 0x11 @ replicate 4096 (0x22 :: byte)"
  let ?env = "mem_env end_minus ?file sample_env"
  let ?s0 = "\<lparr>io_data = ?file, io_position = 0\<rparr>"
  have init: "bpak_io_init_file ?env ''a.bpak'' ''r'' = (BPAK_OK, ?s0)"
    by (simp add: mem_env_sel)
  have seek0: "\<forall>s. fst (bpak_io_seek ?env s 0 BPAK_IO_SEEK_SET) = BPAK_OK"
    by (simp add: mem_env_sel mem_seek_def)
  have s1: "snd (bpak_io_seek ?env ?s0 0 BPAK_IO_SEEK_SET) = ?s0"
    by (simp add: mem_env_sel mem_seek_def)
  have rd1: "bpak_io_read ?env ?s0 sizeof_header
      = (replicate 4096 0x11, \<lparr>io_data = ?file, io_position = 4096\<rparr>)"
    by (simp add: mem_env_sel mem_read_def sizeof_header_def Let_def)
  have se: "bpak_io_seek ?env \<lparr>io_data = ?file, io_position = 4096\<rparr> 4096 BPAK_IO_SEEK_END
      = (BPAK_OK, \<lparr>io_data = ?file, io_position = 4096\<rparr>)"
    by (simp add: mem_env_sel mem_seek_def end_minus_def)
  have rd2: "bpak_io_read ?env \<lparr>io_data = ?file, io_position = 4096\<rparr> sizeof_header
      = (replicate 4096 0x22, \<lparr>io_data = ?file, io_position = 8192\<rparr>)"
    by (simp add: mem_env_sel mem_read_def sizeof_header_def Let_def)
  have v1: "bpak_valid_header ?env (header_of_image ?env (replicate 4096 0x11)) \<noteq> BPAK_OK"
    and v2: "bpak_valid_header ?env (header_of_image ?env (replicate 4096 0x22)) \<noteq> BPAK_OK"
    by (simp_all add: mem_env_sel sample_env_sel sample_of_image_def replicate_four zero_header_def
        sample_magic_def)
  have l: "length (replicate 4096 (0x11 :: byte)) = sizeof_header"
    "length (replicate 4096 (0x22 :: byte)) = sizeof_header"
    by (simp_all add: sizeof_header_def)
  have "bpak_pkg_open ?env ''a.bpak'' (Some ''r'')
      = (BPAK_OK, Package \<lparr>io = snd (bpak_io_seek ?env \<lparr>io_data = ?file, io_position = 8192\<rparr> 0
                                       BPAK_IO_SEEK_SET),
                            header = header_of_image ?env (replicate 4096 0x22),
                            header_location = BPAK_HEADER_POS_FIRST\<rparr>)"
    using open_returns_ok_whatever_the_header [OF refl _ init seek0,
        of "replicate 4096 0x11" "\<lparr>io_data = ?file, io_position = 4096\<rparr>"
           "\<lparr>io_data = ?file, io_position = 4096\<rparr>" "replicate 4096 0x22"
           "\<lparr>io_data = ?file, io_position = 8192\<rparr>"]
      s1 rd1 se rd2 v1 v2 l
    by (simp add: mem_env_sel)
  then show ?thesis
    using v1 v2 by (simp add: mem_env_sel mem_seek_def)
qed


section \<open>Signing\<close>

lemma write_header_stream:
  "bpak_pkg_write_header env pkg = (rc, pkg') \<Longrightarrow>
     header pkg' = header pkg \<and> header_location pkg' = header_location pkg
     \<and> (case (if header_location pkg = BPAK_HEADER_POS_FIRST
               then bpak_io_seek env (io pkg) 0 BPAK_IO_SEEK_SET
               else bpak_io_seek env (io pkg) 4096 BPAK_IO_SEEK_END) of
          (rc1, s1) \<Rightarrow>
            if rc1 \<noteq> BPAK_OK then rc = rc1 \<and> io pkg' = s1
            else (case bpak_io_write env s1 (header_bytes env (header pkg)) of
                    (n, s2) \<Rightarrow>
                      io pkg' = s2 \<and> rc = (if n = sizeof_header then BPAK_OK else BPAK_FAILED)))"
  by (auto simp add: bpak_pkg_write_header_def split: prod.splits if_splits)

text \<open>C6. For a signature of \<open>len \<le> 512\<close> bytes, \<open>bpak_pkg_sign\<close> returns with a header whose
  \<open>signature\<close> starts with the input bytes and continues with \<open>512 - len\<close> zeros,
  \<open>signature_sz = len\<close> and every other field as before, and it has written that header
  to the stream: after the seek to the recorded location (offset 0 for a header in front,
  4096 from the end for a header at the tail) the 4096 bytes of the new header are handed
  to \<open>bpak_io_write\<close>, the stream of the package is the one that write leaves, and the
  result is \<open>BPAK_OK\<close> when all 4096 bytes were written, \<open>BPAK_FAILED\<close> when fewer were, and
  the result of the seek when the seek failed.\<close>

theorem sign_stores_signature:
  assumes "length sig \<le> 512"
  shows "\<exists>rc pkg'. bpak_pkg_sign env pkg sig = Some (rc, pkg')
           \<and> take (length sig) (signature (header pkg')) = sig
           \<and> drop (length sig) (signature (header pkg')) = replicate (512 - length sig) 0
           \<and> unat (signature_sz (header pkg')) = length sig
           \<and> header pkg' = (header pkg)\<lparr>signature := signature (header pkg'),
                                         signature_sz := signature_sz (header pkg')\<rparr>
           \<and> (rc, pkg') = bpak_pkg_write_header env (pkg\<lparr>header := header pkg'\<rparr>)
           \<and> header_location pkg' = header_location pkg
           \<and> (case (if header_location pkg = BPAK_HEADER_POS_FIRST
                     then bpak_io_seek env (io pkg) 0 BPAK_IO_SEEK_SET
                     else bpak_io_seek env (io pkg) 4096 BPAK_IO_SEEK_END) of
                (rc1, s1) \<Rightarrow>
                  if rc1 \<noteq> BPAK_OK then rc = rc1 \<and> io pkg' = s1
                  else (case bpak_io_write env s1 (header_bytes env (header pkg')) of
                          (n, s2) \<Rightarrow>
                            io pkg' = s2
                            \<and> rc = (if n = sizeof_header then BPAK_OK else BPAK_FAILED)))"
proof -
  let ?h = "(header pkg)\<lparr>signature := sig @ replicate (512 - length sig) 0,
                         signature_sz := of_nat (length sig)\<rparr>"
  obtain rc pkg' where w: "bpak_pkg_write_header env (pkg\<lparr>header := ?h\<rparr>) = (rc, pkg')"
    by (cases "bpak_pkg_write_header env (pkg\<lparr>header := ?h\<rparr>)")
  note st = write_header_stream [OF w]
  have h: "header pkg' = ?h"
    using st by simp
  have s: "bpak_pkg_sign env pkg sig = Some (rc, pkg')"
    using assms w by (simp add: bpak_pkg_sign_def memcpy_def Let_def)
  have u: "unat (of_nat (length sig) :: 16 word) = length sig"
    using assms by (simp add: unat_of_nat)
  have stream: "case (if header_location pkg = BPAK_HEADER_POS_FIRST
                     then bpak_io_seek env (io pkg) 0 BPAK_IO_SEEK_SET
                     else bpak_io_seek env (io pkg) 4096 BPAK_IO_SEEK_END) of
                (rc1, s1) \<Rightarrow>
                  if rc1 \<noteq> BPAK_OK then rc = rc1 \<and> io pkg' = s1
                  else (case bpak_io_write env s1 (header_bytes env (header pkg')) of
                          (n, s2) \<Rightarrow>
                            io pkg' = s2
                            \<and> rc = (if n = sizeof_header then BPAK_OK else BPAK_FAILED))"
  proof -
    have "io (pkg\<lparr>header := ?h\<rparr>) = io pkg"
      and "header_location (pkg\<lparr>header := ?h\<rparr>) = header_location pkg"
      and "header (pkg\<lparr>header := ?h\<rparr>) = header pkg'"
      using h by simp_all
    then show ?thesis
      using conjunct2 [OF conjunct2 [OF st]] by (simp only:)
  qed
  have loc: "header_location pkg' = header_location pkg"
    using st by simp
  show ?thesis
    using s h w u loc stream by simp
qed

theorem sign_stores_signature_witness:
  "length [1, 2, 3 :: byte] \<le> 512
   \<and> (\<exists>rc pkg'. bpak_pkg_sign sample_env
        \<lparr>io = \<lparr>io_data = replicate 4096 0x77 @ [9], io_position = 0\<rparr>, header = zero_header,
         header_location = BPAK_HEADER_POS_FIRST\<rparr> [1, 2, 3] = Some (rc, pkg')
           \<and> rc = BPAK_OK
           \<and> take 3 (signature (header pkg')) = [1, 2, 3]
           \<and> drop 3 (signature (header pkg')) = replicate 509 0
           \<and> unat (signature_sz (header pkg')) = 3
           \<and> io_data (io pkg') = header_bytes sample_env (header pkg') @ [9])"
proof -
  let ?pkg = "\<lparr>io = \<lparr>io_data = replicate 4096 0x77 @ [9], io_position = 0\<rparr>, header = zero_header,
         header_location = BPAK_HEADER_POS_FIRST\<rparr>"
  have h: "length [1, 2, 3 :: byte] \<le> 512" by simp
  obtain rc pkg' where
    r: "bpak_pkg_sign sample_env ?pkg [1, 2, 3] = Some (rc, pkg')"
    and "take (length [1, 2, 3 :: byte]) (signature (header pkg')) = [1, 2, 3]"
    and "drop (length [1, 2, 3 :: byte]) (signature (header pkg')) = replicate (512 - length [1, 2, 3 :: byte]) 0"
    and "unat (signature_sz (header pkg')) = length [1, 2, 3 :: byte]"
    and st: "case (if header_location ?pkg = BPAK_HEADER_POS_FIRST
                     then bpak_io_seek sample_env (io ?pkg) 0 BPAK_IO_SEEK_SET
                     else bpak_io_seek sample_env (io ?pkg) 4096 BPAK_IO_SEEK_END) of
                (rc1, s1) \<Rightarrow>
                  if rc1 \<noteq> BPAK_OK then rc = rc1 \<and> io pkg' = s1
                  else (case bpak_io_write sample_env s1 (header_bytes sample_env (header pkg')) of
                          (n, s2) \<Rightarrow>
                            io pkg' = s2
                            \<and> rc = (if n = sizeof_header then BPAK_OK else BPAK_FAILED))"
    using sign_stores_signature [OF h, of sample_env ?pkg]
    by (elim exE conjE) (rule that)
  have "length (header_bytes sample_env (header pkg')) = 4096"
    by (simp add: header_bytes_def sizeof_header_def)
  with st have "rc = BPAK_OK \<and> io_data (io pkg') = header_bytes sample_env (header pkg') @ [9]"
    by (simp add: sample_env_def mem_seek_def mem_write_def Let_def sizeof_header_def)
  with r \<open>take (length [1, 2, 3 :: byte]) (signature (header pkg')) = [1, 2, 3]\<close>
    \<open>drop (length [1, 2, 3 :: byte]) (signature (header pkg')) = replicate (512 - length [1, 2, 3 :: byte]) 0\<close>
    \<open>unat (signature_sz (header pkg')) = length [1, 2, 3 :: byte]\<close>
  show ?thesis
    by (simp add: numeral_3_eq_3)
qed

section \<open>Transport decoding without an origin\<close>

lemma decode_null_origin:
  assumes "fst (bpak_transport_decode_init tr (header input) (io output) None) = BPAK_OK"
    and "fst (bpak_io_seek env (io input) sizeof_header BPAK_IO_SEEK_SET) = BPAK_OK"
    and "parts (header input) = p # ps"
    and "part_id p \<noteq> 0"
  shows "bpak_pkg_transport_decode env tr input output None = Null_Dereference"
proof -
  obtain d where d: "bpak_transport_decode_init tr (header input) (io output) None = (BPAK_OK, d)"
    using assms(1) by (cases "bpak_transport_decode_init tr (header input) (io output) None") simp
  obtain s where s: "bpak_io_seek env (io input) sizeof_header BPAK_IO_SEEK_SET = (BPAK_OK, s)"
    using assms(2) by (cases "bpak_io_seek env (io input) sizeof_header BPAK_IO_SEEK_SET") simp
  show ?thesis
    using d s assms(3,4) by (simp add: bpak_pkg_transport_decode_def Let_def)
qed

text \<open>C8. The claim: with \<open>origin = NULL\<close> and an input that has a live part,
  \<open>bpak_pkg_transport_decode\<close> completes without faulting. The code on a package with one
  live part of three bytes and a decoder whose every call succeeds: the loop reads
  \<open>origin->io\<close> through the null pointer at the first live part.\<close>

theorem transport_decode_null_origin_faults:
  "bpak_pkg_transport_decode sample_env sample_transport sample_input sample_output None
     = Null_Dereference"
  by (rule decode_null_origin [where p = "\<lparr>part_id = 7, part_size = 3, transport_size = 0, offset = 4096,
                            pad_bytes = 0, flags = 0\<rparr>" and ps = "replicate 31 empty_part"])
     (simp_all add: sample_transport_def sample_env_def mem_seek_def sample_input_def)


section \<open>Read results in the payload hash\<close>

lemma hash_switch_results:
  "hash_switch k sz = Inl e \<Longrightarrow> e = BPAK_FAILED \<or> e = BPAK_NOT_SUPPORTED"
  by (auto simp add: hash_switch_def split: if_splits)

lemma hash_switch_supported:
  assumes "k = BPAK_HASH_SHA256 \<or> k = BPAK_HASH_SHA384 \<or> k = BPAK_HASH_SHA512"
    and "64 \<le> sz"
  shows "\<exists>a n. hash_switch k sz = Inr (a, n)"
  using assms by (auto simp add: hash_switch_def)

text \<open>C9. \<open>bpak_pkg_compute_payload_hash\<close> never returns \<open>BPAK_READ_ERROR\<close>, whatever the
  stream does; with a recognised \<open>hash_kind\<close> and room for 64 bytes it returns \<open>BPAK_OK\<close>; and
  when a read deposits fewer bytes than the chunk asked for, the digest is still fed the
  whole chunk: the bytes read, then what was left in \<open>hash_buffer\<close> behind them.\<close>

theorem compute_payload_hash_never_read_error:
  "fst (bpak_pkg_compute_payload_hash env pkg output sz) \<noteq> BPAK_READ_ERROR
   \<and> ((hash_kind (header pkg) = BPAK_HASH_SHA256 \<or> hash_kind (header pkg) = BPAK_HASH_SHA384
        \<or> hash_kind (header pkg) = BPAK_HASH_SHA512) \<and> 64 \<le> sz
       \<longrightarrow> fst (bpak_pkg_compute_payload_hash env pkg output sz) = BPAK_OK)
   \<and> (length (fst (bpak_io_read env s chunk)) < chunk
       \<longrightarrow> snd (snd (hash_chunk env (s, hash_buffer, fed) chunk))
            = fed @ take chunk (fst (bpak_io_read env s chunk)
                                 @ drop (length (fst (bpak_io_read env s chunk))) hash_buffer))"
proof (intro conjI impI)
  show "fst (bpak_pkg_compute_payload_hash env pkg output sz) \<noteq> BPAK_READ_ERROR"
    by (auto simp add: bpak_pkg_compute_payload_hash_def split: sum.splits prod.splits
        dest: hash_switch_results)
next
  assume "(hash_kind (header pkg) = BPAK_HASH_SHA256 \<or> hash_kind (header pkg) = BPAK_HASH_SHA384
        \<or> hash_kind (header pkg) = BPAK_HASH_SHA512) \<and> 64 \<le> sz"
  then obtain a n where "hash_switch (hash_kind (header pkg)) sz = Inr (a, n)"
    using hash_switch_supported by blast
  then show "fst (bpak_pkg_compute_payload_hash env pkg output sz) = BPAK_OK"
    by (simp add: bpak_pkg_compute_payload_hash_def split: prod.splits)
next
  assume short: "length (fst (bpak_io_read env s chunk)) < chunk"
  obtain bs s' where r: "bpak_io_read env s chunk = (bs, s')"
    by (cases "bpak_io_read env s chunk")
  with short have "min chunk (length bs) = length bs"
    by simp
  with r show "snd (snd (hash_chunk env (s, hash_buffer, fed) chunk))
            = fed @ take chunk (fst (bpak_io_read env s chunk)
                                 @ drop (length (fst (bpak_io_read env s chunk))) hash_buffer)"
    by (simp add: hash_chunk_def memcpy_def Let_def)
qed

lemma hash_parts_empty_slots:
  "hash_parts env st (replicate n empty_part) = st"
  by (induction n) (simp_all add: empty_part_def)

lemma sample_truncated_feed:
  "payload_feed sample_env (sample_input\<lparr>io := \<lparr>io_data = replicate 4096 0 @ [1], io_position = 0\<rparr>\<rparr>)
     = (\<lparr>io_data = replicate 4096 0 @ [1], io_position = 4097\<rparr>,
        1 # replicate 511 0xAA, [1, 0xAA, 0xAA])"
proof -
  have "hash_part sample_env
          (\<lparr>io_data = replicate 4096 0 @ [1], io_position = 4096\<rparr>, replicate 512 0xAA, []) 3
        = (\<lparr>io_data = replicate 4096 0 @ [1], io_position = 4097\<rparr>,
           1 # replicate 511 0xAA, [1, 0xAA, 0xAA])"
    by (simp add: hash_part.simps hash_chunk_def sample_env_def mem_read_def memcpy_def Let_def
        numeral_3_eq_3)
  then show ?thesis
    by (simp add: payload_feed_def sample_input_def sample_env_sel sizeof_header_def
        BPAK_FLAG_EXCLUDE_FROM_HASH_def part_size_spec_def BPAK_FLAG_TRANSPORT_def
        hash_parts_empty_slots)
       (simp add: sample_env_def mem_seek_def)
qed

theorem compute_payload_hash_never_read_error_witness:
  "length (fst (bpak_io_read sample_env \<lparr>io_data = replicate 4096 0 @ [1], io_position = 4096\<rparr> 3)) < 3
   \<and> hash_kind (header sample_input) = BPAK_HASH_SHA256
   \<and> fst (bpak_pkg_compute_payload_hash sample_env
            (sample_input\<lparr>io := \<lparr>io_data = replicate 4096 0 @ [1], io_position = 0\<rparr>\<rparr>)
            (replicate 64 0) 64) = BPAK_OK
   \<and> snd (snd (payload_feed sample_env
            (sample_input\<lparr>io := \<lparr>io_data = replicate 4096 0 @ [1], io_position = 0\<rparr>\<rparr>)))
       = [1, 0xAA, 0xAA]
   \<and> snd (snd (hash_chunk sample_env
            (\<lparr>io_data = replicate 4096 0 @ [1], io_position = 4096\<rparr>, replicate 512 0xAA, []) 3))
       = [1, 0xAA, 0xAA]"
proof -
  have short: "length (fst (bpak_io_read sample_env \<lparr>io_data = replicate 4096 0 @ [1], io_position = 4096\<rparr> 3)) < 3"
    by (simp add: sample_env_def mem_read_def Let_def)
  have kind: "hash_kind (header sample_input) = BPAK_HASH_SHA256"
    by (simp add: sample_input_def)
  have rd: "fst (bpak_io_read sample_env \<lparr>io_data = replicate 4096 0 @ [1], io_position = 4096\<rparr> 3) = [1]"
    by (simp add: sample_env_def mem_read_def Let_def)
  have stale: "take 3 ([1] @ drop 1 (replicate 512 (0xAA :: byte))) = [1, 0xAA, 0xAA]"
    by (simp add: numeral_3_eq_3)
  note t = compute_payload_hash_never_read_error
    [of sample_env "sample_input\<lparr>io := \<lparr>io_data = replicate 4096 0 @ [1], io_position = 0\<rparr>\<rparr>"
      "replicate 64 0" 64 "\<lparr>io_data = replicate 4096 0 @ [1], io_position = 4096\<rparr>" 3
      "replicate 512 0xAA" "[]"]
  have ok: "fst (bpak_pkg_compute_payload_hash sample_env
            (sample_input\<lparr>io := \<lparr>io_data = replicate 4096 0 @ [1], io_position = 0\<rparr>\<rparr>)
            (replicate 64 0) 64) = BPAK_OK"
    using t kind by simp
  have chunk: "snd (snd (hash_chunk sample_env
            (\<lparr>io_data = replicate 4096 0 @ [1], io_position = 4096\<rparr>, replicate 512 0xAA, []) 3))
       = [1, 0xAA, 0xAA]"
    using t short rd stale by simp
  show ?thesis
    using short kind ok chunk by (simp add: sample_truncated_feed)
qed

section \<open>The copy loop of bpak_pkg_add_file\<close>

lemma unat_sub_of_nat:
  fixes w :: "64 word"
  assumes "k \<le> unat w"
  shows "unat (w - of_nat k) = unat w - k"
proof -
  have "k < 2 ^ 64"
    using assms unsigned_less [of w, where 'a = nat] by (simp add: order_le_less_trans)
  then have "unat (of_nat k :: 64 word) = k"
    by (simp add: unat_of_nat)
  moreover have "(of_nat k :: 64 word) \<le> w"
    using assms \<open>unat (of_nat k :: 64 word) = k\<close> by (simp add: word_le_nat_alt)
  ultimately show ?thesis
    by (simp add: unat_sub)
qed

lemma copy_loop_short:
  assumes res: "copy_loop env inp s bytes_to_write = Some r"
    and wr: "\<forall>s bs. fst (bpak_io_write env s bs) = length bs"
  shows "unat bytes_to_write \<le> length inp"
proof -
  have "(\<forall>s bs. fst (bpak_io_write env s bs) = length bs) \<longrightarrow> unat bytes_to_write \<le> length inp"
  proof (rule copy_loop.raw_induct
      [where P = "\<lambda>env inp s bytes_to_write r.
          (\<forall>s bs. fst (bpak_io_write env s bs) = length bs) \<longrightarrow> unat bytes_to_write \<le> length inp",
        OF _ res])
    fix f :: "'a bpak_env \<Rightarrow> byte list \<Rightarrow> 'a \<Rightarrow> 64 word \<Rightarrow> (bpak_result \<times> 'a) option"
      and env inp s bytes_to_write r
    assume IH: "\<And>env inp s bytes_to_write r. f env inp s bytes_to_write = Some r \<Longrightarrow>
        (\<forall>s bs. fst (bpak_io_write env s bs) = length bs) \<longrightarrow> unat bytes_to_write \<le> length inp"
      and eq: "(if bytes_to_write = 0 then Some (BPAK_OK, s)
          else case bpak_io_write env s (take 512 inp) of
            (n, s') \<Rightarrow>
              if n \<noteq> length (take 512 inp) then Some (BPAK_WRITE_ERROR, s')
              else f env (drop 512 inp) s' (bytes_to_write - of_nat (length (take 512 inp)))) = Some r"
    show "(\<forall>s bs. fst (bpak_io_write env s bs) = length bs) \<longrightarrow> unat bytes_to_write \<le> length inp"
    proof
      assume wr: "\<forall>s bs. fst (bpak_io_write env s bs) = length bs"
      show "unat bytes_to_write \<le> length inp"
      proof (cases "bytes_to_write = 0")
        case True
        then show ?thesis by simp
      next
        case False
        obtain n s' where w: "bpak_io_write env s (take 512 inp) = (n, s')"
          by (cases "bpak_io_write env s (take 512 inp)")
        then have n: "n = length (take 512 inp)"
          using wr by (metis fst_conv)
        have rec: "f env (drop 512 inp) s' (bytes_to_write - of_nat (length (take 512 inp))) = Some r"
          using eq False w n by simp
        have ih: "unat (bytes_to_write - of_nat (length (take 512 inp))) \<le> length (drop 512 inp)"
          using IH [OF rec] wr by blast
        show ?thesis
        proof (rule ccontr)
          assume "\<not> unat bytes_to_write \<le> length inp"
          then have lt: "length inp < unat bytes_to_write" by simp
          then have "length (take 512 inp) \<le> unat bytes_to_write" by simp
          then have "unat (bytes_to_write - of_nat (length (take 512 inp)))
                       = unat bytes_to_write - length (take 512 inp)"
            by (rule unat_sub_of_nat)
          with ih lt show False by (simp add: min_def split: if_splits)
        qed
      qed
    qed
  qed
  with wr show ?thesis by blast
qed

lemma copy_loop_exact:
  assumes wr: "\<forall>s bs. fst (bpak_io_write env s bs) = length bs"
  shows "length inp = unat bytes_to_write \<Longrightarrow> \<exists>s'. copy_loop env inp s bytes_to_write = Some (BPAK_OK, s')"
proof (induction "length inp" arbitrary: inp s bytes_to_write rule: less_induct)
  case less
  show ?case
  proof (cases "bytes_to_write = 0")
    case True
    then show ?thesis by (simp add: copy_loop.simps)
  next
    case False
    then have pos: "0 < length inp"
      using less.prems by (simp add: unat_gt_0)
    obtain n s' where w: "bpak_io_write env s (take 512 inp) = (n, s')"
      by (cases "bpak_io_write env s (take 512 inp)")
    then have n: "n = length (take 512 inp)"
      using wr by (metis fst_conv)
    have "length (take 512 inp) \<le> unat bytes_to_write"
      using less.prems by simp
    then have u: "unat (bytes_to_write - of_nat (length (take 512 inp)))
                   = unat bytes_to_write - length (take 512 inp)"
      by (rule unat_sub_of_nat)
    have "length (drop 512 inp) = unat (bytes_to_write - of_nat (length (take 512 inp)))"
      using u less.prems by (simp add: min_def)
    moreover have "length (drop 512 inp) < length inp"
      using pos by simp
    ultimately obtain s'' where
      "copy_loop env (drop 512 inp) s' (bytes_to_write - of_nat (length (take 512 inp))) = Some (BPAK_OK, s'')"
      using less.hyps by blast
    then show ?thesis
      using False w n by (subst copy_loop.simps) simp
  qed
qed

text \<open>C10. With a package stream that accepts every write, the copy loop of
  \<open>bpak_pkg_add_file\<close> never ends when the input file delivers fewer bytes than
  \<open>bytes_to_write\<close> (the size \<open>stat\<close> reported), and ends with \<open>BPAK_OK\<close> when it delivers
  exactly that many.\<close>

theorem copy_loop_needs_whole_file:
  assumes "\<forall>s bs. fst (bpak_io_write env s bs) = length bs"
  shows "(length inp < unat bytes_to_write \<longrightarrow> copy_loop env inp s bytes_to_write = None)
       \<and> (length inp = unat bytes_to_write
            \<longrightarrow> (\<exists>s'. copy_loop env inp s bytes_to_write = Some (BPAK_OK, s')))"
proof (intro conjI impI)
  assume lt: "length inp < unat bytes_to_write"
  show "copy_loop env inp s bytes_to_write = None"
  proof (cases "copy_loop env inp s bytes_to_write")
    case None
    then show ?thesis .
  next
    case (Some r)
    then have "unat bytes_to_write \<le> length inp"
      using assms by (rule copy_loop_short)
    with lt show ?thesis by simp
  qed
next
  assume "length inp = unat bytes_to_write"
  then show "\<exists>s'. copy_loop env inp s bytes_to_write = Some (BPAK_OK, s')"
    by (rule copy_loop_exact [OF assms])
qed

theorem copy_loop_needs_whole_file_witness:
  "(\<forall>s bs. fst (bpak_io_write sample_env s bs) = length bs)
   \<and> length [1, 2, 3 :: byte] < unat (5 :: 64 word)
   \<and> copy_loop sample_env [1, 2, 3] \<lparr>io_data = [], io_position = 0\<rparr> 5 = None
   \<and> length [1, 2, 3 :: byte] = unat (3 :: 64 word)
   \<and> (\<exists>s'. copy_loop sample_env [1, 2, 3] \<lparr>io_data = [], io_position = 0\<rparr> 3 = Some (BPAK_OK, s'))"
proof -
  have wr: "\<forall>s bs. fst (bpak_io_write sample_env s bs) = length bs"
    by (simp add: sample_env_def mem_write_def Let_def)
  have a: "length [1, 2, 3 :: byte] < unat (5 :: 64 word)" by simp
  have b: "length [1, 2, 3 :: byte] = unat (3 :: 64 word)" by simp
  show ?thesis
    using wr a b
      copy_loop_needs_whole_file [OF wr, of "[1, 2, 3]" 5 "\<lparr>io_data = [], io_position = 0\<rparr>"]
      copy_loop_needs_whole_file [OF wr, of "[1, 2, 3]" 3 "\<lparr>io_data = [], io_position = 0\<rparr>"]
    by blast
qed

section \<open>The header at the tail\<close>

lemma length_header_bytes:
  "length (header_bytes env h) = 4096"
  by (simp add: header_bytes_def sizeof_header_def)

lemma header_bytes_mem_env:
  "header_bytes (mem_env se file rest) h = header_bytes rest h"
  by (simp add: header_bytes_def mem_env_sel)

lemma sample_tail_file:
  "length tail_file = 8192"
  "take 4096 tail_file = replicate 4096 0"
  "drop 4096 tail_file = sample_image (zero_header\<lparr>magic := sample_magic\<rparr>)"
  "header_bytes sample_env (header tail_package) = sample_image (zero_header\<lparr>magic := sample_magic\<rparr>)"
  "length (sample_image h) = 4096"
  by (simp_all add: tail_file_def sample_image_def header_bytes_def sizeof_header_def
      sample_env_sel tail_package_def)

lemma sample_images:
  "sample_of_image (replicate 4096 0) = zero_header"
  "sample_of_image (sample_image (zero_header\<lparr>magic := sample_magic\<rparr>))
     = zero_header\<lparr>magic := sample_magic\<rparr>"
  by (simp_all add: sample_of_image_def sample_image_def replicate_four zero_header_def)

text \<open>C3. The claim: the tail candidate is read from \<open>end - 4096\<close> and a header at the tail is
  written back there. The copy of pkg.c on C streams, on a file of 8192 bytes whose last
  4096 bytes are a valid header and whose first 4096 bytes are not:
  \<open>fseek(fp, 4096, SEEK_END)\<close> goes to offset 12288, the read there delivers nothing, and
  \<open>bpak_pkg_open\<close> returns \<open>BPAK_OK\<close> with the invalid image of the front and the location
  \<open>BPAK_HEADER_POS_FIRST\<close>; \<open>bpak_pkg_write_header\<close> on the package with the header at the tail
  leaves the 8192 bytes as they are and writes the header at offset 12288, behind a gap of
  4096 bytes, so that the file is 16384 bytes long.\<close>

theorem tail_header_seek_goes_past_the_end:
  "bpak_valid_header sample_env (header_of_image sample_env (take 4096 tail_file)) \<noteq> BPAK_OK
   \<and> bpak_valid_header sample_env
         (header_of_image sample_env (drop (length tail_file - 4096) tail_file)) = BPAK_OK
   \<and> bpak_pkg_open_fp sample_env (\<lambda>filename mode. Some \<lparr>io_data = tail_file, io_position = 0\<rparr>)
         ''a.bpak'' (Some ''r+'')
       = (BPAK_OK, Some \<lparr>io = \<lparr>io_data = tail_file, io_position = 0\<rparr>, header = zero_header,
                          header_location = BPAK_HEADER_POS_FIRST\<rparr>)
   \<and> bpak_pkg_write_header_fp sample_env tail_package
       = (BPAK_OK,
          tail_package\<lparr>io := \<lparr>io_data = tail_file @ replicate 4096 0
                                    @ header_bytes sample_env (header tail_package),
                                io_position = 16384\<rparr>\<rparr>)"
proof (intro conjI)
  show "bpak_valid_header sample_env (header_of_image sample_env (take 4096 tail_file)) \<noteq> BPAK_OK"
    by (simp add: sample_tail_file sample_env_sel sample_images zero_header_def sample_magic_def)
  show "bpak_valid_header sample_env
         (header_of_image sample_env (drop (length tail_file - 4096) tail_file)) = BPAK_OK"
    by (simp add: sample_tail_file sample_env_sel sample_images)
  show "bpak_pkg_open_fp sample_env (\<lambda>filename mode. Some \<lparr>io_data = tail_file, io_position = 0\<rparr>)
         ''a.bpak'' (Some ''r+'')
       = (BPAK_OK, Some \<lparr>io = \<lparr>io_data = tail_file, io_position = 0\<rparr>, header = zero_header,
                          header_location = BPAK_HEADER_POS_FIRST\<rparr>)"
    by (simp add: bpak_pkg_open_fp_def fseek_def fread_def sizeof_header_def Let_def
        sample_tail_file sample_env_sel sample_images memcpy_def)
  show "bpak_pkg_write_header_fp sample_env tail_package
       = (BPAK_OK,
          tail_package\<lparr>io := \<lparr>io_data = tail_file @ replicate 4096 0
                                    @ header_bytes sample_env (header tail_package),
                                io_position = 16384\<rparr>\<rparr>)"
    by (simp add: bpak_pkg_write_header_fp_def fseek_def fwrite_def sizeof_header_def Let_def
        length_header_bytes)
       (simp add: tail_package_def sample_tail_file)
qed


text \<open>pkg.c makes the same two calls through \<open>bpak_io_seek\<close>, so what it does at the tail
  rests on the stream layer. On a memory stream whose seek from the end counts back, the
  header is written over the last 4096 bytes and found there again; on one whose seek
  counts on, the tail header is not found either.\<close>

lemma write_header_tail_end_minus:
  assumes "header_location pkg = BPAK_HEADER_POS_LAST"
    and "4096 \<le> length (io_data (io pkg))"
  shows "bpak_pkg_write_header (mem_env end_minus file rest) pkg =
     (BPAK_OK, pkg\<lparr>io := (io pkg)\<lparr>io_data := take (length (io_data (io pkg)) - 4096) (io_data (io pkg))
                                              @ header_bytes rest (header pkg),
                                 io_position := length (io_data (io pkg))\<rparr>\<rparr>)"
  using assms
  by (simp add: bpak_pkg_write_header_def mem_env_sel mem_seek_def end_minus_def mem_write_def
      Let_def header_bytes_mem_env length_header_bytes sizeof_header_def)

lemma open_tail_end_minus:
  assumes len: "4096 \<le> length data"
    and front: "bpak_valid_header rest (header_of_image rest (take 4096 data)) \<noteq> BPAK_OK"
    and tail: "bpak_valid_header rest (header_of_image rest (drop (length data - 4096) data)) = BPAK_OK"
  shows "bpak_pkg_open (mem_env end_minus data rest) filename (Some m) =
     (BPAK_OK, Package \<lparr>io = \<lparr>io_data = data, io_position = 0\<rparr>,
                         header = header_of_image rest (drop (length data - 4096) data),
                         header_location = BPAK_HEADER_POS_LAST\<rparr>)"
proof -
  have l1: "length (take 4096 data) = 4096"
    using len by simp
  have l2: "length (drop (length data - 4096) data) = 4096"
    using len by simp
  have m1: "memcpy (replicate 4096 0) (take 4096 data) 4096 = take 4096 data"
    using l1 by (simp add: memcpy_whole)
  have m2: "memcpy (take 4096 data) (drop (length data - 4096) data) 4096
              = drop (length data - 4096) data"
    using l1 l2 by (simp add: memcpy_whole)
  have rd: "open_read_header (mem_env end_minus data rest) \<lparr>io_data = data, io_position = 0\<rparr>
      = (\<lparr>io_data = data, io_position = length data\<rparr>, drop (length data - 4096) data,
         BPAK_HEADER_POS_LAST)"
    using len front tail l1 l2 m1 m2
    by (simp add: open_read_header_def mem_env_sel mem_read_def mem_seek_def end_minus_def
        sizeof_header_def Let_def min_def)
  show ?thesis
    by (simp add: bpak_pkg_open_def mem_env_sel mem_seek_def rd)
qed

lemma open_tail_end_plus:
  "bpak_pkg_open (mem_env end_plus tail_file sample_env) ''a.bpak'' (Some ''r+'')
     = (BPAK_OK, Package \<lparr>io = \<lparr>io_data = tail_file, io_position = 0\<rparr>, header = zero_header,
                           header_location = BPAK_HEADER_POS_FIRST\<rparr>)"
  by (simp add: bpak_pkg_open_def open_read_header_def mem_env_sel mem_seek_def end_plus_def
      mem_read_def sizeof_header_def Let_def sample_tail_file sample_env_sel sample_images
      memcpy_def)

section \<open>What the payload hash is fed\<close>























section \<open>Adding the first file\<close>

lemma fold_sizes_empty_slots:
  "fold (\<lambda>p acc. acc + (part_size p + of_nat (pad_bytes p))) (replicate k empty_part) acc
     = (acc :: 64 word)"
  by (induction k) (simp_all add: empty_part_def)

lemma add_part_fresh:
  assumes "parts h = replicate k empty_part" and "0 < k"
  shows "bpak_add_part h ident = Inr 0"
proof -
  obtain j where k: "k = Suc j"
    using assms(2) by (cases k) simp_all
  have "\<not> list_ex (\<lambda>p. part_id p \<noteq> 0 \<and> part_id p = ident) (replicate k empty_part)"
    by (simp add: list_ex_iff empty_part_def)
  moreover have "first_empty_slot (replicate k empty_part) = Some 0"
    by (simp add: k empty_part_def)
  ultimately show ?thesis
    by (simp add: bpak_add_part_def assms(1))
qed

lemma mem_write_accepts:
  "\<forall>s bs. fst (bpak_io_write (mem_env se file rest) s bs) = length bs"
  by (simp add: mem_env_sel mem_write_def Let_def)

lemma update_payload_hash_supported:
  assumes "hash_kind (header pkg) = BPAK_HASH_SHA256 \<or> hash_kind (header pkg) = BPAK_HASH_SHA384
      \<or> hash_kind (header pkg) = BPAK_HASH_SHA512"
  shows "\<exists>s ph. bpak_pkg_update_payload_hash env pkg
      = (BPAK_OK, pkg\<lparr>io := s, header := (header pkg)\<lparr>payload_hash := ph\<rparr>\<rparr>)"
proof -
  obtain a n where "hash_switch (hash_kind (header pkg)) 64 = Inr (a, n)"
    using hash_switch_supported [OF assms, of 64] by auto
  then show ?thesis
    by (auto simp add: bpak_pkg_update_payload_hash_def bpak_pkg_compute_payload_hash_def
        split: prod.splits)
qed

lemma write_header_front_mem:
  assumes "header_location pkg = BPAK_HEADER_POS_FIRST"
  shows "\<exists>s. bpak_pkg_write_header (mem_env se file rest) pkg = (BPAK_OK, pkg\<lparr>io := s\<rparr>)"
  using assms
  by (simp add: bpak_pkg_write_header_def mem_env_sel mem_seek_def mem_write_def Let_def
      length_header_bytes sizeof_header_def) blast

text \<open>The first part of a fresh archive, up to the padding: the slot found, the fields set
  in it and the copy of the file.\<close>

lemma add_file_until_padding:
  assumes st: "st_size file = Some n"
    and ct: "contents file = Some inp"
    and fresh: "parts (header pkg) = replicate k empty_part"
    and k: "0 < k"
    and cp: "copy_loop (mem_env se fdata rest) inp ((io pkg)\<lparr>io_position := 4096\<rparr>) (of_nat n)
               = Some (BPAK_OK, s2)"
  shows "bpak_pkg_add_file (mem_env se fdata rest) pkg file part_name fl =
     (let p = new_part rest empty_part (bpak_id rest part_name) 4096 fl n;
          pkg1 = pkg\<lparr>header := (header pkg)\<lparr>parts := (parts (header pkg))[0 := p]\<rparr>\<rparr>
      in if pad_bytes p > 512 then Out_Of_Bounds
         else
           (case (if pad_bytes p \<noteq> 0
                  then bpak_io_write (mem_env se fdata rest) s2 (replicate (pad_bytes p) 0)
                  else (0, s2)) of
              (m, s3) \<Rightarrow>
                if pad_bytes p \<noteq> 0 \<and> m \<noteq> pad_bytes p
                then Returns (BPAK_WRITE_ERROR, pkg1\<lparr>io := s3\<rparr>)
                else (case bpak_pkg_update_payload_hash (mem_env se fdata rest) (pkg1\<lparr>io := s3\<rparr>) of
                        (rc4, pkg4) \<Rightarrow>
                          if rc4 \<noteq> BPAK_OK then Returns (BPAK_FAILED, pkg4)
                          else Returns (bpak_pkg_write_header (mem_env se fdata rest) pkg4))))"
proof -
  let ?env = "mem_env se fdata rest"
  let ?p = "new_part rest empty_part (bpak_id rest part_name) 4096 fl n"
  let ?pkg1 = "pkg\<lparr>header := (header pkg)\<lparr>parts := (parts (header pkg))[0 := ?p]\<rparr>\<rparr>"
  obtain j where kj: "k = Suc j"
    using k by (cases k) simp_all
  have off: "fold (\<lambda>p new_offset. new_offset + (part_size p + of_nat (pad_bytes p)))
               (parts (header pkg)) (of_nat sizeof_header) = (4096 :: 64 word)"
    by (simp add: fresh fold_sizes_empty_slots sizeof_header_def del: fold_replicate)
  have slot: "bpak_add_part (header pkg) (bpak_id ?env part_name) = Inr 0"
    using fresh k by (rule add_part_fresh)
  have np: "new_part ?env (parts (header pkg) ! 0) (bpak_id ?env part_name) 4096 fl n = ?p"
    by (simp add: fresh kj new_part_def mem_env_sel)
  have sz: "part_size ?p = of_nat n"
    by (simp add: new_part_def)
  have s1: "bpak_io_seek ?env (io ?pkg1) (unat (4096 :: 64 word)) BPAK_IO_SEEK_SET
      = (BPAK_OK, (io pkg)\<lparr>io_position := 4096\<rparr>)"
    by (simp add: mem_env_sel mem_seek_def)
  show ?thesis
    unfolding bpak_pkg_add_file_def Let_def st ct option.case off slot sum.case np sz s1
      prod.case cp
    by simp
qed

lemma copy_loop_whole_file:
  assumes "length inp = n" and "n < 2 ^ 64"
  shows "\<exists>s2. copy_loop (mem_env se fdata rest) inp s (of_nat n) = Some (BPAK_OK, s2)"
proof -
  have "length inp = unat (of_nat n :: 64 word)"
    using assms by (simp add: unat_of_nat)
  then show ?thesis
    using copy_loop_exact [OF mem_write_accepts] by blast
qed

lemma pad_bytes_new_part:
  "pad_bytes (new_part env p ident new_offset fl n)
     = (if n mod BPAK_PART_ALIGN env \<noteq> 0
        then (BPAK_PART_ALIGN env - n mod BPAK_PART_ALIGN env) mod 2 ^ pad_bytes_width env
        else 0)"
  by (simp add: new_part_def)

text \<open>When the padding is longer than \<open>chunk_buffer\<close> the call reads past the array.\<close>

lemma add_file_overrun:
  assumes st: "st_size file = Some n"
    and ct: "contents file = Some inp"
    and len: "length inp = n"
    and n: "n < 2 ^ 64"
    and fresh: "parts (header pkg) = replicate k empty_part"
    and k: "0 < k"
    and pad: "512 < pad_bytes (new_part rest empty_part (bpak_id rest part_name) 4096 fl n)"
  shows "bpak_pkg_add_file (mem_env se fdata rest) pkg file part_name fl = Out_Of_Bounds"
proof -
  obtain s2 where "copy_loop (mem_env se fdata rest) inp ((io pkg)\<lparr>io_position := 4096\<rparr>) (of_nat n)
               = Some (BPAK_OK, s2)"
    using copy_loop_whole_file [OF len n] by blast
  then show ?thesis
    using pad by (simp add: add_file_until_padding [OF st ct fresh k] Let_def)
qed

text \<open>When it fits, the call returns \<open>BPAK_OK\<close> and the first slot holds the new part.\<close>

lemma add_file_first_part:
  assumes st: "st_size file = Some n"
    and ct: "contents file = Some inp"
    and len: "length inp = n"
    and n: "n < 2 ^ 64"
    and fresh: "parts (header pkg) = replicate k empty_part"
    and k: "0 < k"
    and kind: "hash_kind (header pkg) = BPAK_HASH_SHA256 \<or> hash_kind (header pkg) = BPAK_HASH_SHA384
      \<or> hash_kind (header pkg) = BPAK_HASH_SHA512"
    and loc: "header_location pkg = BPAK_HEADER_POS_FIRST"
    and pad: "pad_bytes (new_part rest empty_part (bpak_id rest part_name) 4096 fl n) \<le> 512"
  shows "\<exists>pkg'. bpak_pkg_add_file (mem_env se fdata rest) pkg file part_name fl
                   = Returns (BPAK_OK, pkg')
           \<and> parts (header pkg') ! 0 = new_part rest empty_part (bpak_id rest part_name) 4096 fl n
           \<and> bpak_pkg_installed_size pkg'
               = of_nat n + of_nat (pad_bytes (new_part rest empty_part (bpak_id rest part_name)
                                                 4096 fl n))"
proof -
  let ?env = "mem_env se fdata rest"
  let ?p = "new_part rest empty_part (bpak_id rest part_name) 4096 fl n"
  let ?pkg1 = "pkg\<lparr>header := (header pkg)\<lparr>parts := (parts (header pkg))[0 := ?p]\<rparr>\<rparr>"
  obtain j where kj: "k = Suc j"
    using k by (cases k) simp_all
  obtain s2 where cp: "copy_loop ?env inp ((io pkg)\<lparr>io_position := 4096\<rparr>) (of_nat n)
               = Some (BPAK_OK, s2)"
    using copy_loop_whole_file [OF len n] by blast
  have a: "bpak_pkg_add_file ?env pkg file part_name fl =
           (case (if pad_bytes ?p \<noteq> 0
                  then bpak_io_write ?env s2 (replicate (pad_bytes ?p) 0)
                  else (0, s2)) of
              (m, s3) \<Rightarrow>
                if pad_bytes ?p \<noteq> 0 \<and> m \<noteq> pad_bytes ?p
                then Returns (BPAK_WRITE_ERROR, ?pkg1\<lparr>io := s3\<rparr>)
                else (case bpak_pkg_update_payload_hash ?env (?pkg1\<lparr>io := s3\<rparr>) of
                        (rc4, pkg4) \<Rightarrow>
                          if rc4 \<noteq> BPAK_OK then Returns (BPAK_FAILED, pkg4)
                          else Returns (bpak_pkg_write_header ?env pkg4)))"
    using pad by (simp add: add_file_until_padding [OF st ct fresh k cp] Let_def)
  obtain m s3 where s3: "(if pad_bytes ?p \<noteq> 0
                  then bpak_io_write ?env s2 (replicate (pad_bytes ?p) 0)
                  else (0, s2)) = (m, s3)"
    by (cases "if pad_bytes ?p \<noteq> 0
                  then bpak_io_write ?env s2 (replicate (pad_bytes ?p) 0)
                  else (0, s2)")
  have m: "\<not> (pad_bytes ?p \<noteq> 0 \<and> m \<noteq> pad_bytes ?p)"
    using s3 mem_write_accepts [of se fdata rest]
    by (auto split: if_splits) (metis fst_conv length_replicate)
  have kind': "hash_kind (header (?pkg1\<lparr>io := s3\<rparr>)) = BPAK_HASH_SHA256
      \<or> hash_kind (header (?pkg1\<lparr>io := s3\<rparr>)) = BPAK_HASH_SHA384
      \<or> hash_kind (header (?pkg1\<lparr>io := s3\<rparr>)) = BPAK_HASH_SHA512"
    using kind by simp
  obtain s4 ph where u: "bpak_pkg_update_payload_hash ?env (?pkg1\<lparr>io := s3\<rparr>)
      = (BPAK_OK, (?pkg1\<lparr>io := s3\<rparr>)\<lparr>io := s4,
                    header := (header (?pkg1\<lparr>io := s3\<rparr>))\<lparr>payload_hash := ph\<rparr>\<rparr>)"
    using update_payload_hash_supported [OF kind', of ?env] by blast
  let ?pkg4 = "(?pkg1\<lparr>io := s3\<rparr>)\<lparr>io := s4,
                    header := (header (?pkg1\<lparr>io := s3\<rparr>))\<lparr>payload_hash := ph\<rparr>\<rparr>"
  have "header_location ?pkg4 = BPAK_HEADER_POS_FIRST"
    using loc by simp
  then obtain s5 where w: "bpak_pkg_write_header ?env ?pkg4 = (BPAK_OK, ?pkg4\<lparr>io := s5\<rparr>)"
    using write_header_front_mem by blast
  have res: "bpak_pkg_add_file ?env pkg file part_name fl = Returns (BPAK_OK, ?pkg4\<lparr>io := s5\<rparr>)"
    unfolding a s3 prod.case using m by (simp add: u w [simplified])
  have p0: "parts (header (?pkg4\<lparr>io := s5\<rparr>)) = ?p # replicate j empty_part"
    by (simp add: kj fresh)
  have psz: "part_size ?p = of_nat n"
    by (simp add: new_part_def)
  have inst: "bpak_pkg_installed_size (?pkg4\<lparr>io := s5\<rparr>) = of_nat n + of_nat (pad_bytes ?p)"
    unfolding bpak_pkg_installed_size_def p0
    by (simp add: fold_sizes_empty_slots psz del: fold_replicate)
  show ?thesis
    using res inst p0 by simp
qed

text \<open>The copy loop inside \<open>bpak_pkg_add_file\<close>: on a fresh archive the call does not return
  when the file delivers fewer bytes than \<open>stat\<close> reported.\<close>

lemma add_file_short_file_never_returns:
  assumes st: "st_size file = Some n"
    and ct: "contents file = Some inp"
    and short: "length inp < n"
    and n: "n < 2 ^ 64"
    and fresh: "parts (header pkg) = replicate k empty_part"
    and k: "0 < k"
  shows "bpak_pkg_add_file (mem_env se fdata rest) pkg file part_name fl = Never_Returns"
proof -
  let ?env = "mem_env se fdata rest"
  have slot: "bpak_add_part (header pkg) (bpak_id ?env part_name) = Inr 0"
    using fresh k by (rule add_part_fresh)
  have u: "unat (of_nat n :: 64 word) = n"
    using n by (simp add: unat_of_nat)
  have none: "copy_loop ?env inp s (of_nat n) = None" for s
  proof (cases "copy_loop ?env inp s (of_nat n)")
    case None
    then show ?thesis .
  next
    case (Some r)
    then have "unat (of_nat n :: 64 word) \<le> length inp"
      using mem_write_accepts by (rule copy_loop_short)
    with short u show ?thesis by simp
  qed
  show ?thesis
    unfolding bpak_pkg_add_file_def Let_def st ct option.case slot sum.case
    by (simp add: new_part_def none mem_env_sel mem_seek_def)
qed

lemma kernel_bin_sel:
  "st_size kernel_bin = Some 8193"
  "contents kernel_bin = Some (replicate 8193 0x55)"
  by (simp_all add: kernel_bin_def)

lemma fresh_package_sel:
  "parts (header fresh_package) = replicate 32 empty_part"
  "hash_kind (header fresh_package) = BPAK_HASH_SHA256"
  "header_location fresh_package = BPAK_HEADER_POS_FIRST"
  by (simp_all add: fresh_package_def zero_header_def)

text \<open>C7. With \<open>BPAK_PART_ALIGN\<close> 4096, as the claim has it, a file of 8193 bytes added to a
  fresh archive needs 4095 bytes of padding. With a \<open>pad_bytes\<close> field of 16 bits the call
  writes those 4095 bytes out of \<open>chunk_buffer\<close>, which has 512: it reads past the end of the
  array and has no defined result. With a \<open>pad_bytes\<close> field of 8 bits, the width the
  specification gives the field, the call returns \<open>BPAK_OK\<close> with \<open>pad_bytes = 255\<close> and
  \<open>bpak_pkg_installed_size\<close> 8448. In neither case is the result \<open>pad_bytes = 4095\<close> and an
  installed size of 12288.\<close>

theorem add_file_padding_counterexample:
  "BPAK_PART_ALIGN sample_env = 4096
   \<and> pad_bytes_width sample_env = 16
   \<and> bpak_pkg_add_file (mem_env end_plus [] sample_env) fresh_package kernel_bin ''kernel'' 0
       = Out_Of_Bounds
   \<and> (\<exists>pkg'. bpak_pkg_add_file (mem_env end_plus [] (sample_env\<lparr>pad_bytes_width := 8\<rparr>))
                 fresh_package kernel_bin ''kernel'' 0 = Returns (BPAK_OK, pkg')
            \<and> part_size (parts (header pkg') ! 0) = 8193
            \<and> offset (parts (header pkg') ! 0) = 4096
            \<and> pad_bytes (parts (header pkg') ! 0) = 255
            \<and> bpak_pkg_installed_size pkg' = 8448)"
proof -
  have len: "length (replicate 8193 (0x55 :: byte)) = 8193" and n: "(8193 :: nat) < 2 ^ 64"
    and k: "0 < (32 :: nat)"
    by simp_all
  have kind: "hash_kind (header fresh_package) = BPAK_HASH_SHA256
      \<or> hash_kind (header fresh_package) = BPAK_HASH_SHA384
      \<or> hash_kind (header fresh_package) = BPAK_HASH_SHA512"
    by (simp add: fresh_package_sel)
  have wide: "512 < pad_bytes (new_part sample_env empty_part (bpak_id sample_env ''kernel'')
                                 4096 0 8193)"
    by (simp add: pad_bytes_new_part sample_env_def)
  have narrow: "pad_bytes (new_part (sample_env\<lparr>pad_bytes_width := 8\<rparr>) empty_part
                   (bpak_id (sample_env\<lparr>pad_bytes_width := 8\<rparr>) ''kernel'') 4096 0 8193) = 255"
    by (simp add: pad_bytes_new_part sample_env_def)
  have a: "bpak_pkg_add_file (mem_env end_plus [] sample_env) fresh_package kernel_bin ''kernel'' 0
       = Out_Of_Bounds"
    using kernel_bin_sel len n fresh_package_sel(1) k wide by (rule add_file_overrun)
  have fits: "pad_bytes (new_part (sample_env\<lparr>pad_bytes_width := 8\<rparr>) empty_part
                   (bpak_id (sample_env\<lparr>pad_bytes_width := 8\<rparr>) ''kernel'') 4096 0 8193) \<le> 512"
    unfolding narrow by simp
  obtain pkg' where r: "bpak_pkg_add_file (mem_env end_plus [] (sample_env\<lparr>pad_bytes_width := 8\<rparr>))
                 fresh_package kernel_bin ''kernel'' 0 = Returns (BPAK_OK, pkg')"
    and p: "parts (header pkg') ! 0 = new_part (sample_env\<lparr>pad_bytes_width := 8\<rparr>) empty_part
                   (bpak_id (sample_env\<lparr>pad_bytes_width := 8\<rparr>) ''kernel'') 4096 0 8193"
    and i: "bpak_pkg_installed_size pkg' = of_nat 8193 + of_nat (pad_bytes (new_part
                   (sample_env\<lparr>pad_bytes_width := 8\<rparr>) empty_part
                   (bpak_id (sample_env\<lparr>pad_bytes_width := 8\<rparr>) ''kernel'') 4096 0 8193))"
    using add_file_first_part [OF kernel_bin_sel len n fresh_package_sel(1) k kind
        fresh_package_sel(3) fits, where se = end_plus and fdata = "[]"]
    by (elim exE conjE) (rule that)
  have "part_size (parts (header pkg') ! 0) = 8193" and "offset (parts (header pkg') ! 0) = 4096"
    unfolding p by (simp_all add: new_part_def)
  moreover have "pad_bytes (parts (header pkg') ! 0) = 255"
    unfolding p by (rule narrow)
  moreover have "bpak_pkg_installed_size pkg' = 8448"
    unfolding i narrow by simp
  moreover have "BPAK_PART_ALIGN sample_env = 4096" and "pad_bytes_width sample_env = 16"
    by (simp_all add: sample_env_def)
  ultimately show ?thesis
    using a r by blast
qed

text \<open>C7, as amended. \<open>bpak_pkg_add_file\<close> with a file of 8193 bytes (\<open>stat\<close> reports 8193 and
  the file delivers them) on a fresh archive (every slot of the part table empty, header in
  front, a recognised \<open>hash_kind\<close>) whose stream is held in memory, when the padding
  \<open>BPAK_PART_ALIGN - 8193 mod BPAK_PART_ALIGN\<close>, reduced to the width of the \<open>pad_bytes\<close> field,
  is no longer than the 512 bytes of \<open>chunk_buffer\<close>: the call returns \<open>BPAK_OK\<close>, the first
  part has \<open>size = 8193\<close>, \<open>offset = 4096\<close> and that \<open>pad_bytes\<close>, and
  \<open>bpak_pkg_installed_size\<close> of the package is 8193 plus that \<open>pad_bytes\<close>.\<close>

theorem add_file_8193_bytes:
  assumes st: "st_size file = Some 8193"
    and ct: "contents file = Some inp"
    and len: "length inp = 8193"
    and fresh: "parts (header pkg) = replicate k empty_part"
    and k: "0 < k"
    and kind: "hash_kind (header pkg) = BPAK_HASH_SHA256 \<or> hash_kind (header pkg) = BPAK_HASH_SHA384
      \<or> hash_kind (header pkg) = BPAK_HASH_SHA512"
    and loc: "header_location pkg = BPAK_HEADER_POS_FIRST"
    and padding: "padding = (if 8193 mod BPAK_PART_ALIGN rest \<noteq> 0
                             then (BPAK_PART_ALIGN rest - 8193 mod BPAK_PART_ALIGN rest)
                                    mod 2 ^ pad_bytes_width rest
                             else 0)"
    and fits: "padding \<le> 512"
  shows "\<exists>pkg'. bpak_pkg_add_file (mem_env se fdata rest) pkg file part_name fl
                  = Returns (BPAK_OK, pkg')
           \<and> part_size (parts (header pkg') ! 0) = 8193
           \<and> offset (parts (header pkg') ! 0) = 4096
           \<and> pad_bytes (parts (header pkg') ! 0) = padding
           \<and> bpak_pkg_installed_size pkg' = 8193 + of_nat padding"
proof -
  let ?p = "new_part rest empty_part (bpak_id rest part_name) 4096 fl 8193"
  have n: "(8193 :: nat) < 2 ^ 64"
    by simp
  have pd: "pad_bytes ?p = padding"
    by (simp add: pad_bytes_new_part padding)
  then have le: "pad_bytes ?p \<le> 512"
    using fits by simp
  obtain pkg' where r: "bpak_pkg_add_file (mem_env se fdata rest) pkg file part_name fl
                   = Returns (BPAK_OK, pkg')"
    and p: "parts (header pkg') ! 0 = ?p"
    and i: "bpak_pkg_installed_size pkg' = of_nat 8193 + of_nat (pad_bytes ?p)"
    using add_file_first_part [OF st ct len n fresh k kind loc le, where se = se and fdata = fdata]
    by (elim exE conjE) (rule that)
  have "part_size (parts (header pkg') ! 0) = 8193" and "offset (parts (header pkg') ! 0) = 4096"
    unfolding p by (simp_all add: new_part_def)
  moreover have "pad_bytes (parts (header pkg') ! 0) = padding"
    unfolding p by (rule pd)
  moreover have "bpak_pkg_installed_size pkg' = 8193 + of_nat padding"
    unfolding i pd by simp
  ultimately show ?thesis
    using r by blast
qed

text \<open>With \<open>BPAK_PART_ALIGN\<close> 512 the padding is 511 bytes and the installed size 8704.\<close>

theorem add_file_8193_bytes_witness:
  "st_size kernel_bin = Some 8193
   \<and> contents kernel_bin = Some (replicate 8193 0x55)
   \<and> parts (header fresh_package) = replicate 32 empty_part
   \<and> hash_kind (header fresh_package) = BPAK_HASH_SHA256
   \<and> header_location fresh_package = BPAK_HEADER_POS_FIRST
   \<and> BPAK_PART_ALIGN (sample_env\<lparr>BPAK_PART_ALIGN := 512\<rparr>) = 512
   \<and> (\<exists>pkg'. bpak_pkg_add_file (mem_env end_plus [] (sample_env\<lparr>BPAK_PART_ALIGN := 512\<rparr>))
                 fresh_package kernel_bin ''kernel'' 0 = Returns (BPAK_OK, pkg')
           \<and> part_size (parts (header pkg') ! 0) = 8193
           \<and> offset (parts (header pkg') ! 0) = 4096
           \<and> pad_bytes (parts (header pkg') ! 0) = 511
           \<and> bpak_pkg_installed_size pkg' = 8704)"
proof -
  have len: "length (replicate 8193 (0x55 :: byte)) = 8193" and k: "0 < (32 :: nat)"
    by simp_all
  have kind: "hash_kind (header fresh_package) = BPAK_HASH_SHA256
      \<or> hash_kind (header fresh_package) = BPAK_HASH_SHA384
      \<or> hash_kind (header fresh_package) = BPAK_HASH_SHA512"
    by (simp add: fresh_package_sel)
  have padding: "(511 :: nat) = (if 8193 mod BPAK_PART_ALIGN (sample_env\<lparr>BPAK_PART_ALIGN := 512\<rparr>) \<noteq> 0
                             then (BPAK_PART_ALIGN (sample_env\<lparr>BPAK_PART_ALIGN := 512\<rparr>)
                                     - 8193 mod BPAK_PART_ALIGN (sample_env\<lparr>BPAK_PART_ALIGN := 512\<rparr>))
                                    mod 2 ^ pad_bytes_width (sample_env\<lparr>BPAK_PART_ALIGN := 512\<rparr>)
                             else 0)"
    by (simp add: sample_env_def)
  have fits: "(511 :: nat) \<le> 512"
    by simp
  have "\<exists>pkg'. bpak_pkg_add_file (mem_env end_plus [] (sample_env\<lparr>BPAK_PART_ALIGN := 512\<rparr>))
                 fresh_package kernel_bin ''kernel'' 0 = Returns (BPAK_OK, pkg')
           \<and> part_size (parts (header pkg') ! 0) = 8193
           \<and> offset (parts (header pkg') ! 0) = 4096
           \<and> pad_bytes (parts (header pkg') ! 0) = 511
           \<and> bpak_pkg_installed_size pkg' = 8704"
    using add_file_8193_bytes [OF kernel_bin_sel len fresh_package_sel(1) k kind
        fresh_package_sel(3) padding fits, where se = end_plus and fdata = "[]"
          and part_name = "''kernel''" and fl = 0]
    by simp
  then show ?thesis
    using kernel_bin_sel fresh_package_sel by (simp add: sample_env_def)
qed

end
